theory Spec2Isabelle
  imports Main "HOL-Library.Word"
begin

section \<open>Common conventions\<close>

text \<open>
  The personal vault is a single-process TypeScript program. Its classes are embedded
  as records of their fields with one HOL function per method; a method that mutates
  the object returns the new object next to its result. JavaScript numbers that hold
  millisecond timestamps and use counters are integers. Every reading of the clock
  (\<^verbatim>\<open>Date.now()\<close>) and every draw of the random source (\<^verbatim>\<open>crypto.randomBytes\<close>)
  is an argument of the function that makes it; a method that reads the clock more
  than once gets one reading. Buffers are lists of bytes.
\<close>

type_synonym bytes = "8 word list"

text \<open>
  JavaScript truthiness of an optional number, as in \<^verbatim>\<open>x && now > x\<close> and
  \<^verbatim>\<open>x || 60\<close>: \<^verbatim>\<open>undefined\<close> and \<^verbatim>\<open>0\<close> are both falsy.
\<close>

fun truthyNumber :: "int option \<Rightarrow> bool" where
  "truthyNumber None = False"
| "truthyNumber (Some v) = (v \<noteq> 0)"

text \<open>Truthiness of an optional string: \<^verbatim>\<open>undefined\<close> and the empty string are falsy.\<close>

fun truthyString :: "string option \<Rightarrow> bool" where
  "truthyString None = False"
| "truthyString (Some s) = (s \<noteq> [])"

section \<open>Approval workflow (access/approval-workflow.ts)\<close>

record Requester =
  rs_id :: string
  rs_name :: string
  rs_email :: "string option"
  rs_organization :: "string option"

record DataRequest =
  rq_requestId :: string
  rq_requester :: Requester
  rq_category :: string
  rq_fields :: "string list"
  rq_purpose :: string
  rq_createdAt :: int
  rq_expiresAt :: int
  rq_signature :: "string option"
  rq_publicKey :: "string option"

datatype ApprovalStatus = Pending | Approved | Rejected | Expired

record Restrictions =
  maxUses :: "int option"
  usesRemaining :: "int option"
  validUntil :: "int option"
  allowedRecipients :: "string list option"

record DataApproval =
  ap_requestId :: string
  status :: ApprovalStatus
  approvedBy :: "string option"
  approvedAt :: "int option"
  rejectedBy :: "string option"
  rejectedAt :: "int option"
  reason :: "string option"
  restrictions :: "Restrictions option"

record ApprovalDecision =
  approved :: bool
  dc_reason :: "string option"
  dc_restrictions :: "Restrictions option"

text \<open>
  \<^verbatim>\<open>ApprovalResult\<close> is \<open>Inr approval\<close> for \<^verbatim>\<open>{ok: true, approval}\<close> and \<open>Inl error\<close>
  for \<^verbatim>\<open>{ok: false, error}\<close>. The two private maps of the class are the state; the
  write of the state file after a mutation is taken to succeed.
\<close>

type_synonym ApprovalResult = "string + DataApproval"

record ApprovalWorkflow =
  pendingRequests :: "string \<rightharpoonup> DataRequest"
  approvals :: "string \<rightharpoonup> DataApproval"

definition submitRequest ::
  "int \<Rightarrow> ApprovalWorkflow \<Rightarrow> DataRequest \<Rightarrow> ApprovalResult \<times> ApprovalWorkflow" where
  "submitRequest now w request =
     (if pendingRequests w (rq_requestId request) \<noteq> None then
        (Inl ''Request already exists'', w)
      else if approvals w (rq_requestId request) \<noteq> None then
        (Inl ''Request already processed'', w)
      else if now > rq_expiresAt request then
        (Inl ''Request has expired'', w)
      else
        let approval = \<lparr> ap_requestId = rq_requestId request, status = Pending,
                          approvedBy = None, approvedAt = None, rejectedBy = None,
                          rejectedAt = None, reason = None, restrictions = None \<rparr>
        in (Inr approval,
            w\<lparr> pendingRequests := (pendingRequests w)(rq_requestId request \<mapsto> request),
                approvals := (approvals w)(rq_requestId request \<mapsto> approval) \<rparr>))"

definition approveRequest ::
  "int \<Rightarrow> ApprovalWorkflow \<Rightarrow> string \<Rightarrow> string \<Rightarrow> ApprovalDecision
     \<Rightarrow> ApprovalResult \<times> ApprovalWorkflow" where
  "approveRequest now w requestId approver decision =
     (case pendingRequests w requestId of
        None \<Rightarrow> (Inl ''Request not found'', w)
      | Some request \<Rightarrow>
         (case approvals w requestId of
            None \<Rightarrow> (Inl ''Request not found'', w)
          | Some approval \<Rightarrow>
              if status approval \<noteq> Pending then
                (Inl ''Request already processed'', w)
              else if now > rq_expiresAt request then
                (Inl ''Request has expired'',
                 w\<lparr> approvals := (approvals w)(requestId \<mapsto> approval\<lparr> status := Expired \<rparr>) \<rparr>)
              else
                let approval' =
                  (if approved decision then
                     approval\<lparr> status := Approved, approvedBy := Some approver,
                               approvedAt := Some now,
                               restrictions := dc_restrictions decision \<rparr>
                   else
                     approval\<lparr> status := Rejected, rejectedBy := Some approver,
                               rejectedAt := Some now, reason := dc_reason decision \<rparr>)
                in (Inr approval',
                    w\<lparr> pendingRequests := (pendingRequests w)(requestId := None),
                        approvals := (approvals w)(requestId \<mapsto> approval') \<rparr>)))"

definition rejectRequest ::
  "int \<Rightarrow> ApprovalWorkflow \<Rightarrow> string \<Rightarrow> string \<Rightarrow> string
     \<Rightarrow> ApprovalResult \<times> ApprovalWorkflow" where
  "rejectRequest now w requestId rejecter why =
     approveRequest now w requestId rejecter
       \<lparr> approved = False, dc_reason = Some why, dc_restrictions = None \<rparr>"

definition getApproval :: "ApprovalWorkflow \<Rightarrow> string \<Rightarrow> DataApproval option" where
  "getApproval w requestId = approvals w requestId"

definition canFulfillRequest :: "int \<Rightarrow> ApprovalWorkflow \<Rightarrow> string \<Rightarrow> bool" where
  "canFulfillRequest now w requestId =
     (case approvals w requestId of
        None \<Rightarrow> False
      | Some approval \<Rightarrow>
          if status approval \<noteq> Approved then False
          else
            (case restrictions approval of
               None \<Rightarrow> True
             | Some r \<Rightarrow>
                 if truthyNumber (validUntil r) \<and> now > the (validUntil r) then False
                 else if usesRemaining r \<noteq> None \<and> the (usesRemaining r) \<le> 0 then False
                 else True))"

definition recordFulfillment :: "ApprovalWorkflow \<Rightarrow> string \<Rightarrow> bool \<times> ApprovalWorkflow" where
  "recordFulfillment w requestId =
     (case approvals w requestId of
        None \<Rightarrow> (False, w)
      | Some approval \<Rightarrow>
          (case restrictions approval of
             None \<Rightarrow> (True, w)
           | Some r \<Rightarrow>
               (case usesRemaining r of
                  None \<Rightarrow> (True, w)
                | Some n \<Rightarrow>
                    (True,
                     w\<lparr> approvals := (approvals w)(requestId \<mapsto>
                           approval\<lparr> restrictions := Some (r\<lparr> usesRemaining := Some (n - 1) \<rparr>) \<rparr>) \<rparr>))))"

definition revokeApproval ::
  "ApprovalWorkflow \<Rightarrow> string \<Rightarrow> string \<Rightarrow> bool \<times> ApprovalWorkflow" where
  "revokeApproval w requestId why =
     (case approvals w requestId of
        None \<Rightarrow> (False, w)
      | Some approval \<Rightarrow>
          (True,
           w\<lparr> pendingRequests := (pendingRequests w)(requestId := None),
               approvals := (approvals w)(requestId \<mapsto>
                  approval\<lparr> status := Rejected, reason := Some why \<rparr>) \<rparr>))"

text \<open>The state after \<open>k\<close> successive calls of \<^verbatim>\<open>recordFulfillment\<close> on one id.\<close>

fun recordFulfillments :: "nat \<Rightarrow> ApprovalWorkflow \<Rightarrow> string \<Rightarrow> ApprovalWorkflow" where
  "recordFulfillments 0 w requestId = w"
| "recordFulfillments (Suc k) w requestId =
     recordFulfillments k (snd (recordFulfillment w requestId)) requestId"

text \<open>The uses left on an approval, when it tracks them.\<close>

definition usesLeft :: "ApprovalWorkflow \<Rightarrow> string \<Rightarrow> int option" where
  "usesLeft w requestId =
     (case approvals w requestId of
        None \<Rightarrow> None
      | Some approval \<Rightarrow>
          (case restrictions approval of None \<Rightarrow> None | Some r \<Rightarrow> usesRemaining r))"

subsection \<open>The fulfilment check in the words of the specification\<close>

text \<open>
  The specification's reading of \<^verbatim>\<open>canFulfillRequest\<close>: the status is approved and,
  when restrictions are present, \<^verbatim>\<open>validUntil\<close> (if set) has not passed and
  \<^verbatim>\<open>usesRemaining\<close> (if tracked) is positive. It is compared with the function of the
  source below.
\<close>

definition canFulfillRequest_spec :: "int \<Rightarrow> ApprovalWorkflow \<Rightarrow> string \<Rightarrow> bool" where
  "canFulfillRequest_spec now w requestId =
     (case approvals w requestId of
        None \<Rightarrow> False
      | Some approval \<Rightarrow>
          status approval = Approved \<and>
          (case restrictions approval of
             None \<Rightarrow> True
           | Some r \<Rightarrow>
               (case validUntil r of None \<Rightarrow> True | Some v \<Rightarrow> \<not> now > v) \<and>
               (case usesRemaining r of None \<Rightarrow> True | Some n \<Rightarrow> n > 0)))"

subsection \<open>Workflow scenarios\<close>

definition emptyWorkflow :: ApprovalWorkflow where
  "emptyWorkflow = \<lparr> pendingRequests = Map.empty, approvals = Map.empty \<rparr>"

definition sampleRequest :: DataRequest where
  "sampleRequest =
     \<lparr> rq_requestId = ''req-1'',
       rq_requester = \<lparr> rs_id = ''clinic-7'', rs_name = ''Clinic'', rs_email = None,
                        rs_organization = None \<rparr>,
       rq_category = ''medical'', rq_fields = [''vaccination''], rq_purpose = ''travel'',
       rq_createdAt = 0, rq_expiresAt = 1000, rq_signature = None, rq_publicKey = None \<rparr>"

definition singleUse :: Restrictions where
  "singleUse = \<lparr> maxUses = Some 1, usesRemaining = Some 1, validUntil = Some 2000,
                 allowedRecipients = None \<rparr>"

definition approveSingleUse :: ApprovalDecision where
  "approveSingleUse = \<lparr> approved = True, dc_reason = None, dc_restrictions = Some singleUse \<rparr>"

definition rejectDecision :: ApprovalDecision where
  "rejectDecision = \<lparr> approved = False, dc_reason = Some ''no'', dc_restrictions = None \<rparr>"

text \<open>A request submitted at time 10 and approved, respectively rejected, at time 20.\<close>

definition submittedWorkflow :: ApprovalWorkflow where
  "submittedWorkflow = snd (submitRequest 10 emptyWorkflow sampleRequest)"

definition approvedWorkflow :: ApprovalWorkflow where
  "approvedWorkflow = snd (approveRequest 20 submittedWorkflow ''req-1'' ''owner'' approveSingleUse)"

definition rejectedWorkflow :: ApprovalWorkflow where
  "rejectedWorkflow = snd (approveRequest 20 submittedWorkflow ''req-1'' ''owner'' rejectDecision)"

definition approvalRecord :: "ApprovalStatus \<Rightarrow> Restrictions \<Rightarrow> DataApproval" where
  "approvalRecord s r =
     \<lparr> ap_requestId = ''req-1'', status = s, approvedBy = None, approvedAt = None,
       rejectedBy = None, rejectedAt = None, reason = None, restrictions = Some r \<rparr>"

text \<open>A rejected approval that still tracks one use.\<close>

definition rejectedOnce :: ApprovalWorkflow where
  "rejectedOnce =
     \<lparr> pendingRequests = Map.empty,
       approvals = [''req-1'' \<mapsto> approvalRecord Rejected singleUse] \<rparr>"

text \<open>An approved approval whose \<^verbatim>\<open>validUntil\<close> is the epoch itself.\<close>

definition epochApproval :: ApprovalWorkflow where
  "epochApproval =
     \<lparr> pendingRequests = Map.empty,
       approvals = [''req-1'' \<mapsto> approvalRecord Approved
          \<lparr> maxUses = None, usesRemaining = None, validUntil = Some 0,
            allowedRecipients = None \<rparr>] \<rparr>"

section \<open>Data packages (delivery/data-packager.ts): the package record\<close>

record PackageMetadata =
  pm_createdAt :: int
  pm_expiresAt :: int
  oneTimeUse :: bool
  watermarked :: bool

record DataPackage =
  pk_packageId :: string
  pk_requestId :: string
  pk_recipient :: string
  pk_category :: string
  pk_fields :: "string list"
  pk_encryptedData :: string
  pk_iv :: string
  pk_authTag :: string
  pk_signature :: string
  pk_metadata :: PackageMetadata

section \<open>Secure transport (delivery/secure-transport.ts)\<close>

datatype DeliveryMethod = Email | Portal | Api | Channel

record DeliveryOptions =
  dl_method :: DeliveryMethod
  dl_recipient :: string
  dl_encryptionKey :: "bytes option"
  dl_expirationMinutes :: "int option"
  notifyRecipient :: "bool option"

record DeliveryResult =
  success :: bool
  deliveryId :: "string option"
  accessUrl :: "string option"
  dr_encryptionKey :: "string option"
  dr_error :: "string option"

record AccessToken =
  tokenId :: string
  tk_packageId :: string
  tk_recipient :: string
  tk_encryptionKey :: string
  tk_expiresAt :: int
  used :: bool

record SecureTransport =
  accessTokens :: "string \<rightharpoonup> AccessToken"
  baseUrl :: string

text \<open>
  The two draws of \<^verbatim>\<open>crypto.randomBytes(32)\<close> reach the model already rendered, the
  first as a hexadecimal string and the second in base64. \<open>toBase64\<close> stands for
  \<^verbatim>\<open>Buffer.toString("base64")\<close> of the runtime.
\<close>

definition deliverViaPortal ::
  "int \<Rightarrow> string \<Rightarrow> string \<Rightarrow> SecureTransport \<Rightarrow> DataPackage \<Rightarrow> DeliveryOptions
     \<Rightarrow> DeliveryResult \<times> SecureTransport" where
  "deliverViaPortal now randomHex randomB64 t pkg options =
     (let tokenId' = randomHex;
          encryptionKey = randomB64;
          expirationMinutes =
            (if truthyNumber (dl_expirationMinutes options)
             then the (dl_expirationMinutes options) else 60);
          expiresAt = now + expirationMinutes * 60 * 1000;
          token = \<lparr> tokenId = tokenId', tk_packageId = pk_packageId pkg,
                    tk_recipient = dl_recipient options, tk_encryptionKey = encryptionKey,
                    tk_expiresAt = expiresAt, used = False \<rparr>;
          url = baseUrl t @ ''/vault/access/'' @ tokenId'
      in (\<lparr> success = True, deliveryId = Some tokenId', accessUrl = Some url,
            dr_encryptionKey = Some encryptionKey, dr_error = None \<rparr>,
          t\<lparr> accessTokens := (accessTokens t)(tokenId' \<mapsto> token) \<rparr>))"

definition deliverViaEmail ::
  "int \<Rightarrow> string \<Rightarrow> string \<Rightarrow> SecureTransport \<Rightarrow> DataPackage \<Rightarrow> DeliveryOptions
     \<Rightarrow> DeliveryResult \<times> SecureTransport" where
  "deliverViaEmail now randomHex randomB64 t pkg options =
     (let portalResult = deliverViaPortal now randomHex randomB64 t pkg options
      in portalResult)"

definition deliverViaApi ::
  "(bytes \<Rightarrow> string) \<Rightarrow> string \<Rightarrow> SecureTransport \<Rightarrow> DataPackage \<Rightarrow> DeliveryOptions
     \<Rightarrow> DeliveryResult \<times> SecureTransport" where
  "deliverViaApi toBase64 randomHex t pkg options =
     (let apiToken = randomHex
      in (\<lparr> success = True, deliveryId = Some apiToken,
            accessUrl = Some (baseUrl t @ ''/api/vault/packages/'' @ pk_packageId pkg),
            dr_encryptionKey = map_option toBase64 (dl_encryptionKey options),
            dr_error = None \<rparr>,
          t))"

definition deliverViaChannel ::
  "SecureTransport \<Rightarrow> DataPackage \<Rightarrow> DeliveryOptions \<Rightarrow> DeliveryResult \<times> SecureTransport" where
  "deliverViaChannel t pkg options =
     (\<lparr> success = True, deliveryId = Some (pk_packageId pkg), accessUrl = None,
        dr_encryptionKey = None, dr_error = None \<rparr>,
      t)"

definition deliverPackage ::
  "(bytes \<Rightarrow> string) \<Rightarrow> int \<Rightarrow> string \<Rightarrow> string \<Rightarrow> SecureTransport \<Rightarrow> DataPackage
     \<Rightarrow> DeliveryOptions \<Rightarrow> DeliveryResult \<times> SecureTransport" where
  "deliverPackage toBase64 now randomHex randomB64 t pkg options =
     (case dl_method options of
        Portal \<Rightarrow> deliverViaPortal now randomHex randomB64 t pkg options
      | Email \<Rightarrow> deliverViaEmail now randomHex randomB64 t pkg options
      | Api \<Rightarrow> deliverViaApi toBase64 randomHex t pkg options
      | Channel \<Rightarrow> deliverViaChannel t pkg options)"

definition validateAccessToken :: "int \<Rightarrow> SecureTransport \<Rightarrow> string \<Rightarrow> AccessToken option" where
  "validateAccessToken now t tid =
     (case accessTokens t tid of
        None \<Rightarrow> None
      | Some token \<Rightarrow>
          if now > tk_expiresAt token then None
          else if used token then None
          else Some token)"

definition markTokenUsed :: "SecureTransport \<Rightarrow> string \<Rightarrow> bool \<times> SecureTransport" where
  "markTokenUsed t tid =
     (case accessTokens t tid of
        None \<Rightarrow> (False, t)
      | Some token \<Rightarrow>
          (True, t\<lparr> accessTokens := (accessTokens t)(tid \<mapsto> token\<lparr> used := True \<rparr>) \<rparr>))"

definition revokeAccessToken :: "SecureTransport \<Rightarrow> string \<Rightarrow> bool \<times> SecureTransport" where
  "revokeAccessToken t tid =
     (accessTokens t tid \<noteq> None, t\<lparr> accessTokens := (accessTokens t)(tid := None) \<rparr>)"

subsection \<open>The artifact of portal delivery in the words of the specification\<close>

text \<open>
  What the specification lets every delivery method produce: a successful result
  whose delivery id names an access token recorded in the token store for this
  package, together with an access URL.
\<close>

definition portalArtifact_spec :: "DataPackage \<Rightarrow> DeliveryResult \<times> SecureTransport \<Rightarrow> bool" where
  "portalArtifact_spec pkg out =
     (success (fst out) \<and>
      (case deliveryId (fst out) of
         None \<Rightarrow> False
       | Some tid \<Rightarrow>
           (case accessTokens (snd out) tid of
              None \<Rightarrow> False
            | Some token \<Rightarrow> tokenId token = tid \<and> tk_packageId token = pk_packageId pkg)) \<and>
      accessUrl (fst out) \<noteq> None)"

subsection \<open>Transport scenarios\<close>

definition emptyTransport :: SecureTransport where
  "emptyTransport = \<lparr> accessTokens = Map.empty, baseUrl = ''https://vault.example'' \<rparr>"

definition samplePackage :: DataPackage where
  "samplePackage =
     \<lparr> pk_packageId = ''p1'', pk_requestId = ''req-1'', pk_recipient = ''clinic-7'',
       pk_category = ''medical'', pk_fields = [''vaccination''], pk_encryptedData = ''AAEC'',
       pk_iv = ''AA=='', pk_authTag = ''AQ=='', pk_signature = ''00'',
       pk_metadata = \<lparr> pm_createdAt = 0, pm_expiresAt = 3600000, oneTimeUse = True,
                       watermarked = False \<rparr> \<rparr>"

definition deliveryBy :: "DeliveryMethod \<Rightarrow> DeliveryOptions" where
  "deliveryBy m = \<lparr> dl_method = m, dl_recipient = ''clinic-7'', dl_encryptionKey = None,
                   dl_expirationMinutes = None, notifyRecipient = None \<rparr>"

text \<open>Stand-in for the base64 rendering in the scenarios: one letter per byte.\<close>

definition letterPerByte :: "bytes \<Rightarrow> string" where
  "letterPerByte bs = map (\<lambda>b. CHR ''A'') bs"

definition portalDelivered :: SecureTransport where
  "portalDelivered =
     snd (deliverPackage letterPerByte 0 ''ab12'' ''a2V5'' emptyTransport samplePackage
            (deliveryBy Portal))"

section \<open>Permission engine (access/permission-engine.ts)\<close>

datatype PermissionLevel = Read | Write | Delete | Share

fun levelName :: "PermissionLevel \<Rightarrow> string" where
  "levelName Read = ''read''"
| "levelName Write = ''write''"
| "levelName Delete = ''delete''"
| "levelName Share = ''share''"

record TimeRestriction =
  validFrom :: "int option"
  tr_validUntil :: "int option"

record UsageLimit =
  ul_maxUses :: int
  currentUses :: int

record RecipientRestriction =
  rr_allowedRecipients :: "string list"

record PurposeRestriction =
  allowedPurposes :: "string list"

record Conditions =
  timeRestriction :: "TimeRestriction option"
  usageLimit :: "UsageLimit option"
  recipientRestriction :: "RecipientRestriction option"
  purposeRestriction :: "PurposeRestriction option"

record Permission =
  pe_category :: string
  pe_fields :: "string list option"
  pe_level :: "PermissionLevel list"
  conditions :: "Conditions option"

record CheckContext =
  cx_recipient :: "string option"
  cx_purpose :: "string option"

record PermissionCheckResult =
  allowed :: bool
  pc_reason :: "string option"

record PermissionEngine =
  permissions :: "string \<rightharpoonup> Permission list"

text \<open>\<^verbatim>\<open>Array.prototype.join\<close> on strings.\<close>

fun joinWith :: "string \<Rightarrow> string list \<Rightarrow> string" where
  "joinWith sep [] = []"
| "joinWith sep [x] = x"
| "joinWith sep (x # y # ys) = x @ sep @ joinWith sep (y # ys)"

definition grantPermission :: "PermissionEngine \<Rightarrow> string \<Rightarrow> Permission \<Rightarrow> PermissionEngine" where
  "grantPermission e userId permission =
     (let userPerms = (case permissions e userId of None \<Rightarrow> [] | Some ps \<Rightarrow> ps)
      in e\<lparr> permissions := (permissions e)(userId \<mapsto> userPerms @ [permission]) \<rparr>)"

definition revokePermission :: "PermissionEngine \<Rightarrow> string \<Rightarrow> string \<Rightarrow> bool \<times> PermissionEngine" where
  "revokePermission e userId category =
     (case permissions e userId of
        None \<Rightarrow> (False, e)
      | Some userPerms \<Rightarrow>
          let filtered = filter (\<lambda>p. pe_category p \<noteq> category) userPerms
          in if length filtered = length userPerms then (False, e)
             else (True, e\<lparr> permissions := (permissions e)(userId \<mapsto> filtered) \<rparr>))"

definition checkConditions ::
  "int \<Rightarrow> Permission \<Rightarrow> CheckContext option \<Rightarrow> PermissionCheckResult" where
  "checkConditions now permission ctx =
     (case conditions permission of
        None \<Rightarrow> \<lparr> allowed = True, pc_reason = None \<rparr>
      | Some c \<Rightarrow>
          if (case timeRestriction c of
                None \<Rightarrow> False
              | Some tr \<Rightarrow> truthyNumber (validFrom tr) \<and> now < the (validFrom tr))
          then \<lparr> allowed = False, pc_reason = Some ''Permission not yet valid'' \<rparr>
          else if (case timeRestriction c of
                     None \<Rightarrow> False
                   | Some tr \<Rightarrow> truthyNumber (tr_validUntil tr) \<and> now > the (tr_validUntil tr))
          then \<lparr> allowed = False, pc_reason = Some ''Permission has expired'' \<rparr>
          else if (case usageLimit c of
                     None \<Rightarrow> False
                   | Some ul \<Rightarrow> currentUses ul \<ge> ul_maxUses ul)
          then \<lparr> allowed = False, pc_reason = Some ''Usage limit exceeded'' \<rparr>
          else if (case recipientRestriction c of
                     None \<Rightarrow> False
                   | Some rr \<Rightarrow>
                       (case ctx of
                          None \<Rightarrow> False
                        | Some cx \<Rightarrow>
                            truthyString (cx_recipient cx) \<and>
                            the (cx_recipient cx) \<notin> set (rr_allowedRecipients rr)))
          then \<lparr> allowed = False, pc_reason = Some ''Recipient not authorized'' \<rparr>
          else if (case purposeRestriction c of
                     None \<Rightarrow> False
                   | Some pr \<Rightarrow>
                       (case ctx of
                          None \<Rightarrow> False
                        | Some cx \<Rightarrow>
                            truthyString (cx_purpose cx) \<and>
                            the (cx_purpose cx) \<notin> set (allowedPurposes pr)))
          then \<lparr> allowed = False, pc_reason = Some ''Purpose not authorized'' \<rparr>
          else \<lparr> allowed = True, pc_reason = None \<rparr>)"

definition checkPermission ::
  "int \<Rightarrow> PermissionEngine \<Rightarrow> string \<Rightarrow> string \<Rightarrow> string list \<Rightarrow> PermissionLevel
     \<Rightarrow> CheckContext option \<Rightarrow> PermissionCheckResult" where
  "checkPermission now e userId category flds level ctx =
     (case permissions e userId of
        None \<Rightarrow> \<lparr> allowed = False, pc_reason = Some ''No permissions granted'' \<rparr>
      | Some userPerms \<Rightarrow>
          if length userPerms = 0 then
            \<lparr> allowed = False, pc_reason = Some ''No permissions granted'' \<rparr>
          else
            (case find (\<lambda>p. pe_category p = category) userPerms of
               None \<Rightarrow> \<lparr> allowed = False, pc_reason = Some ''No permission for this category'' \<rparr>
             | Some matchingPerm \<Rightarrow>
                 if level \<notin> set (pe_level matchingPerm) then
                   \<lparr> allowed = False,
                     pc_reason = Some (''Permission level '' @ [CHR 0x27] @ levelName level
                                        @ [CHR 0x27] @ '' not granted'') \<rparr>
                 else
                   let restrictedFields =
                     (case pe_fields matchingPerm of
                        None \<Rightarrow> []
                      | Some granted \<Rightarrow>
                          if length granted > 0
                          then filter (\<lambda>f. f \<notin> set granted) flds else [])
                   in if length restrictedFields > 0 then
                        \<lparr> allowed = False,
                          pc_reason = Some (''Access denied to fields: ''
                                             @ joinWith '', '' restrictedFields) \<rparr>
                      else
                        (case conditions matchingPerm of
                           None \<Rightarrow> \<lparr> allowed = True, pc_reason = None \<rparr>
                         | Some c \<Rightarrow>
                             let conditionCheck = checkConditions now matchingPerm ctx
                             in if \<not> allowed conditionCheck then conditionCheck
                                else \<lparr> allowed = True, pc_reason = None \<rparr>)))"

text \<open>
  A denial of step 4 of the evaluation order: the only result of \<^verbatim>\<open>checkPermission\<close>
  whose reason begins with "Access denied to fields: ".
\<close>

definition deniedOnFields :: "PermissionCheckResult \<Rightarrow> bool" where
  "deniedOnFields r =
     (\<not> allowed r \<and>
      (case pc_reason r of
         None \<Rightarrow> False
       | Some s \<Rightarrow> take (length ''Access denied to fields: '') s = ''Access denied to fields: ''))"

subsection \<open>Field filtering of the data packager (\<^verbatim>\<open>DataPackager.filterFields\<close>)\<close>

text \<open>
  The data object is a map from property names to values. The loop copies, field by
  field, the properties the object has.
\<close>

fun copyFields :: "(string \<rightharpoonup> 'v) \<Rightarrow> string list \<Rightarrow> (string \<rightharpoonup> 'v) \<Rightarrow> (string \<rightharpoonup> 'v)" where
  "copyFields d [] filtered = filtered"
| "copyFields d (field # rest) filtered =
     copyFields d rest (case d field of None \<Rightarrow> filtered | Some v \<Rightarrow> filtered(field \<mapsto> v))"

definition filterFields :: "(string \<rightharpoonup> 'v) \<Rightarrow> string list \<Rightarrow> (string \<rightharpoonup> 'v)" where
  "filterFields d flds =
     (if ''*'' \<in> set flds then d else copyFields d flds Map.empty)"

subsection \<open>Permission scenarios\<close>

definition nameOnlyGrant :: Permission where
  "nameOnlyGrant = \<lparr> pe_category = ''medical'', pe_fields = Some [''name''],
                     pe_level = [Read], conditions = None \<rparr>"

definition starGrant :: Permission where
  "starGrant = \<lparr> pe_category = ''medical'', pe_fields = Some [''*''],
                 pe_level = [Read], conditions = None \<rparr>"

definition engineWith :: "Permission \<Rightarrow> PermissionEngine" where
  "engineWith p = grantPermission \<lparr> permissions = Map.empty \<rparr> ''user-1'' p"

definition sampleData :: "string \<rightharpoonup> nat" where
  "sampleData = [''name'' \<mapsto> 1, ''dob'' \<mapsto> 2]"

section \<open>Authentication manager (auth/auth-manager.ts)\<close>

datatype AuthFactor =
    PassphraseFactor string
  | DeviceFactor string string
  | BiometricFactor string
  | HardwareKeyFactor string string

datatype FactorType = TPassphrase | TDevice | TBiometric | THardwareKey

fun factorType :: "AuthFactor \<Rightarrow> FactorType" where
  "factorType (PassphraseFactor v) = TPassphrase"
| "factorType (DeviceFactor d s) = TDevice"
| "factorType (BiometricFactor t) = TBiometric"
| "factorType (HardwareKeyFactor c r) = THardwareKey"

fun factorTypeName :: "FactorType \<Rightarrow> string" where
  "factorTypeName TPassphrase = ''passphrase''"
| "factorTypeName TDevice = ''device''"
| "factorTypeName TBiometric = ''biometric''"
| "factorTypeName THardwareKey = ''hardware-key''"

record AuthSession =
  sessionId :: string
  ss_userId :: string
  factors :: "FactorType list"
  ss_expiresAt :: int
  ss_createdAt :: int
  ss_deviceId :: "string option"

record AuthorizedDevice =
  ad_deviceId :: string
  ad_publicKey :: string
  ad_name :: string
  addedAt :: int

record StoredAuth =
  sa_userId :: string
  passphraseHash :: string
  sa_salt :: string
  mfaEnabled :: bool
  authorizedDevices :: "AuthorizedDevice list"
  sessions :: "AuthSession list"

text \<open>
  \<^verbatim>\<open>AuthResult\<close>: a session, or an error text with the optional \<^verbatim>\<open>requiresMfa\<close> flag.
\<close>

datatype AuthResult = AuthOk AuthSession | AuthFail string "bool option"

record VaultAuthManager =
  authData :: "string \<rightharpoonup> StoredAuth"

text \<open>
  What the manager takes from the runtime. \<open>scrypt\<close> is the key derivation behind
  \<^verbatim>\<open>hashPassphrase\<close>, from a passphrase and a salt to a hexadecimal digest; \<open>verifySha256\<close>
  is \<^verbatim>\<open>crypto.createVerify("SHA256")\<close> applied to a public key, the signed text and a
  hexadecimal signature; \<open>writeAuthFile\<close> is the write of \<^verbatim>\<open>auth.json\<close> by
  \<^verbatim>\<open>saveAuthData\<close>. Each may throw: \<open>Inl\<close>, respectively \<open>Some\<close>, carries the
  rendering of the exception.
\<close>

record AuthRuntime =
  scrypt :: "string \<Rightarrow> string \<Rightarrow> string + string"
  verifySha256 :: "string \<Rightarrow> string \<Rightarrow> string \<Rightarrow> string + bool"
  writeAuthFile :: "(string \<rightharpoonup> StoredAuth) \<Rightarrow> string option"

text \<open>
  \<^verbatim>\<open>crypto.timingSafeEqual\<close> throws on buffers of different byte length and compares
  them otherwise.
\<close>

definition timingSafeEqual :: "string \<Rightarrow> string \<Rightarrow> string + bool" where
  "timingSafeEqual a b =
     (if length a \<noteq> length b
      then Inl ''RangeError: Input buffers must have the same byte length''
      else Inr (a = b))"

fun validateFactor :: "AuthRuntime \<Rightarrow> StoredAuth \<Rightarrow> AuthFactor \<Rightarrow> string + bool" where
  "validateFactor rt a (PassphraseFactor v) =
     (case scrypt rt v (sa_salt a) of
        Inl e \<Rightarrow> Inl e
      | Inr hash \<Rightarrow> timingSafeEqual hash (passphraseHash a))"
| "validateFactor rt a (DeviceFactor d sig) =
     (case find (\<lambda>dev. ad_deviceId dev = d) (authorizedDevices a) of
        None \<Rightarrow> Inr False
      | Some device \<Rightarrow>
          (case verifySha256 rt (ad_publicKey device) d sig of
             Inl e \<Rightarrow> Inr False
           | Inr ok \<Rightarrow> Inr ok))"
| "validateFactor rt a (BiometricFactor t) = Inr (length t > 0)"
| "validateFactor rt a (HardwareKeyFactor c r) = Inr (length r > 0)"

definition createSession ::
  "int \<Rightarrow> string \<Rightarrow> string \<Rightarrow> FactorType list \<Rightarrow> string option \<Rightarrow> AuthSession" where
  "createSession now randomHex userId fs deviceId' =
     \<lparr> sessionId = randomHex, ss_userId = userId, factors = fs,
       ss_expiresAt = now + 24 * 60 * 60 * 1000, ss_createdAt = now,
       ss_deviceId = deviceId' \<rparr>"

text \<open>Pushing a session on a user's list, and the save that follows it.\<close>

definition pushSession :: "VaultAuthManager \<Rightarrow> string \<Rightarrow> StoredAuth \<Rightarrow> AuthSession \<Rightarrow> VaultAuthManager" where
  "pushSession m userId a session =
     m\<lparr> authData := (authData m)(userId \<mapsto> a\<lparr> sessions := sessions a @ [session] \<rparr>) \<rparr>"

definition createUser ::
  "AuthRuntime \<Rightarrow> int \<Rightarrow> string \<Rightarrow> string \<Rightarrow> VaultAuthManager \<Rightarrow> string \<Rightarrow> string \<Rightarrow> bool
     \<Rightarrow> AuthResult \<times> VaultAuthManager" where
  "createUser rt now randomSalt randomHex m userId passphrase mfa =
     (if authData m userId \<noteq> None then (AuthFail ''User already exists'' None, m)
      else
        (case scrypt rt passphrase randomSalt of
           Inl e \<Rightarrow> (AuthFail (''Failed to create user: '' @ e) None, m)
         | Inr hash \<Rightarrow>
             let a = \<lparr> sa_userId = userId, passphraseHash = hash, sa_salt = randomSalt,
                       mfaEnabled = mfa, authorizedDevices = [], sessions = [] \<rparr>;
                 m1 = m\<lparr> authData := (authData m)(userId \<mapsto> a) \<rparr>
             in (case writeAuthFile rt (authData m1) of
                   Some e \<Rightarrow> (AuthFail (''Failed to create user: '' @ e) None, m1)
                 | None \<Rightarrow>
                     let session = createSession now randomHex userId [TPassphrase] None;
                         m2 = pushSession m1 userId a session
                     in (case writeAuthFile rt (authData m2) of
                           Some e \<Rightarrow> (AuthFail (''Failed to create user: '' @ e) None, m2)
                         | None \<Rightarrow> (AuthOk session, m2)))))"

definition authenticate ::
  "AuthRuntime \<Rightarrow> int \<Rightarrow> string \<Rightarrow> VaultAuthManager \<Rightarrow> string \<Rightarrow> AuthFactor
     \<Rightarrow> AuthResult \<times> VaultAuthManager" where
  "authenticate rt now randomHex m userId factor =
     (case authData m userId of
        None \<Rightarrow> (AuthFail ''User not found'' None, m)
      | Some a \<Rightarrow>
          (case validateFactor rt a factor of
             Inl e \<Rightarrow> (AuthFail (''Authentication failed: '' @ e) None, m)
           | Inr factorValid \<Rightarrow>
               if \<not> factorValid then (AuthFail ''Authentication failed'' None, m)
               else if mfaEnabled a \<and> factorType factor = TPassphrase then
                 (AuthFail ''Multi-factor authentication required'' (Some True), m)
               else
                 let session = createSession now randomHex userId [factorType factor] None;
                     m' = pushSession m userId a session
                 in (case writeAuthFile rt (authData m') of
                       Some e \<Rightarrow> (AuthFail (''Authentication failed: '' @ e) None, m')
                     | None \<Rightarrow> (AuthOk session, m'))))"

text \<open>
  The validation loop of \<^verbatim>\<open>authenticateMfa\<close>: \<open>Inl\<close> for an exception, \<open>Inr (Some f)\<close>
  for the first factor that does not validate, \<open>Inr None\<close> when all factors validate.
\<close>

fun validateAll :: "AuthRuntime \<Rightarrow> StoredAuth \<Rightarrow> AuthFactor list \<Rightarrow> string + AuthFactor option" where
  "validateAll rt a [] = Inr None"
| "validateAll rt a (factor # rest) =
     (case validateFactor rt a factor of
        Inl e \<Rightarrow> Inl e
      | Inr valid \<Rightarrow> if \<not> valid then Inr (Some factor) else validateAll rt a rest)"

fun factorDeviceId :: "AuthFactor \<Rightarrow> string option" where
  "factorDeviceId (DeviceFactor d s) = Some d"
| "factorDeviceId f = None"

definition authenticateMfa ::
  "AuthRuntime \<Rightarrow> int \<Rightarrow> string \<Rightarrow> VaultAuthManager \<Rightarrow> string \<Rightarrow> AuthFactor list
     \<Rightarrow> AuthResult \<times> VaultAuthManager" where
  "authenticateMfa rt now randomHex m userId fs =
     (case authData m userId of
        None \<Rightarrow> (AuthFail ''User not found'' None, m)
      | Some a \<Rightarrow>
          (case validateAll rt a fs of
             Inl e \<Rightarrow> (AuthFail (''MFA authentication failed: '' @ e) None, m)
           | Inr (Some factor) \<Rightarrow>
               (AuthFail (''Invalid '' @ factorTypeName (factorType factor) @ '' factor'') None, m)
           | Inr None \<Rightarrow>
               let session = createSession now randomHex userId (map factorType fs)
                     (case find (\<lambda>f. factorType f = TDevice) fs of
                        None \<Rightarrow> None
                      | Some f \<Rightarrow> factorDeviceId f);
                   m' = pushSession m userId a session
               in (case writeAuthFile rt (authData m') of
                     Some e \<Rightarrow> (AuthFail (''MFA authentication failed: '' @ e) None, m')
                   | None \<Rightarrow> (AuthOk session, m'))))"

text \<open>The sessions a user holds.\<close>

definition sessionsOf :: "VaultAuthManager \<Rightarrow> string \<Rightarrow> AuthSession list" where
  "sessionsOf m userId = (case authData m userId of None \<Rightarrow> [] | Some a \<Rightarrow> sessions a)"

subsection \<open>Authentication scenarios\<close>

text \<open>
  A runtime for the scenarios: the digest is the salt followed by the passphrase, no
  signature verifies, every write succeeds.
\<close>

definition scenarioRuntime :: AuthRuntime where
  "scenarioRuntime =
     \<lparr> scrypt = (\<lambda>passphrase salt. Inr (salt @ passphrase)),
       verifySha256 = (\<lambda>key text sig. Inr False),
       writeAuthFile = (\<lambda>data. None) \<rparr>"

definition noUsers :: VaultAuthManager where
  "noUsers = \<lparr> authData = Map.empty \<rparr>"

definition aliceCreated :: VaultAuthManager where
  "aliceCreated = snd (createUser scenarioRuntime 0 ''5a17'' ''s0'' noUsers ''alice'' ''hunter2'' True)"

section \<open>Data packager (delivery/data-packager.ts)\<close>

text \<open>
  JSON values, for the payload of a package and for the object whose serialization is
  signed. An object is the list of its members in the order of the source.
\<close>

datatype json =
    JString string
  | JNumber int
  | JBool bool
  | JArray "json list"
  | JObject "(string \<times> json) list"

record PackageOptions =
  po_expirationMinutes :: "int option"
  po_oneTimeUse :: "bool option"
  watermark :: "bool option"
  po_encryptionKey :: "bytes option"

record DataPackager =
  privateKey :: string
  publicKey :: string

text \<open>
  What the packager takes from the runtime: \<open>stringifyData\<close> is \<^verbatim>\<open>JSON.stringify\<close> of the
  payload object; \<open>aes256gcm\<close> is the AES-256-GCM cipher on a key, an IV and a text,
  giving the ciphertext and the authentication tag; \<open>base64\<close> and \<open>sha256Hex\<close> are the
  encodings of the same names; \<open>rsaSign\<close> and \<open>rsaVerify\<close> are
  \<^verbatim>\<open>createSign("SHA256")\<close> and \<^verbatim>\<open>createVerify("SHA256")\<close> on the serialization of a
  JSON value, with a key in PEM and a hexadecimal signature. \<open>Inl\<close> carries the
  rendering of an exception.
\<close>

record PackagerRuntime =
  stringifyData :: "(string \<rightharpoonup> json) \<Rightarrow> string"
  aes256gcm :: "bytes \<Rightarrow> bytes \<Rightarrow> string \<Rightarrow> string + (bytes \<times> bytes)"
  base64 :: "bytes \<Rightarrow> string"
  sha256Hex :: "string \<Rightarrow> string"
  rsaSign :: "string \<Rightarrow> json \<Rightarrow> string + string"
  rsaVerify :: "string \<Rightarrow> json \<Rightarrow> string \<Rightarrow> string + bool"

record PackageValidity =
  valid :: bool
  pv_reason :: "string option"

text \<open>Decimal rendering of a number in a template string.\<close>

fun decimalNat :: "nat \<Rightarrow> string" where
  "decimalNat n =
     (if n < 10 then [char_of (48 + n)]
      else decimalNat (n div 10) @ [char_of (48 + n mod 10)])"

definition decimal :: "int \<Rightarrow> string" where
  "decimal i = (if i < 0 then CHR ''-'' # decimalNat (nat (- i)) else decimalNat (nat i))"

definition metadataJson :: "PackageMetadata \<Rightarrow> json" where
  "metadataJson md =
     JObject [(''createdAt'', JNumber (pm_createdAt md)),
              (''expiresAt'', JNumber (pm_expiresAt md)),
              (''oneTimeUse'', JBool (oneTimeUse md)),
              (''watermarked'', JBool (watermarked md))]"

definition addWatermark ::
  "PackagerRuntime \<Rightarrow> int \<Rightarrow> (string \<rightharpoonup> json) \<Rightarrow> string \<Rightarrow> string \<Rightarrow> (string \<rightharpoonup> json)" where
  "addWatermark rt now d packageId recipient =
     d(''__watermark'' \<mapsto>
        JObject [(''packageId'', JString packageId),
                 (''recipient'', JString recipient),
                 (''timestamp'', JNumber now),
                 (''hash'', JString (sha256Hex rt
                     (packageId @ '':'' @ recipient @ '':'' @ decimal now)))])"

text \<open>
  \<^verbatim>\<open>signPackage\<close> receives the seven members that \<^verbatim>\<open>createPackage\<close> passes and signs
  the object it builds from them.
\<close>

definition signPackage ::
  "PackagerRuntime \<Rightarrow> DataPackager \<Rightarrow> string \<Rightarrow> string \<Rightarrow> string \<Rightarrow> string \<Rightarrow> string list
     \<Rightarrow> string \<Rightarrow> PackageMetadata \<Rightarrow> string + string" where
  "signPackage rt pk packageId requestId recipient category flds encryptedData metadata =
     (let canonical =
            JObject [(''packageId'', JString packageId),
                     (''requestId'', JString requestId),
                     (''recipient'', JString recipient),
                     (''category'', JString category),
                     (''fields'', JArray (map JString flds)),
                     (''encryptedData'', JString encryptedData),
                     (''metadata'', metadataJson metadata)]
      in rsaSign rt (privateKey pk) canonical)"

definition createPackage ::
  "PackagerRuntime \<Rightarrow> DataPackager \<Rightarrow> int \<Rightarrow> string \<Rightarrow> bytes \<Rightarrow> bytes
     \<Rightarrow> string \<Rightarrow> string \<Rightarrow> string \<Rightarrow> string list \<Rightarrow> (string \<rightharpoonup> json) \<Rightarrow> PackageOptions
     \<Rightarrow> string + DataPackage" where
  "createPackage rt pk now randomId randomKey randomIv requestId recipient category flds d options =
     (let packageId = randomId;
          filteredData = filterFields d flds;
          dataToPackage =
            (if watermark options = Some True
             then addWatermark rt now filteredData packageId recipient
             else filteredData);
          encryptionKey =
            (case po_encryptionKey options of Some k \<Rightarrow> k | None \<Rightarrow> randomKey);
          iv = randomIv
      in (case aes256gcm rt encryptionKey iv (stringifyData rt dataToPackage) of
           Inl e \<Rightarrow> Inl (''Failed to create package: '' @ e)
         | Inr (encryptedData, authTag) \<Rightarrow>
            (let expirationMinutes =
                   (if truthyNumber (po_expirationMinutes options)
                    then the (po_expirationMinutes options) else 60);
                 expiresAt = now + expirationMinutes * 60 * 1000;
                 metadata = \<lparr> pm_createdAt = now, pm_expiresAt = expiresAt,
                               oneTimeUse = (po_oneTimeUse options = Some True),
                               watermarked = (watermark options = Some True) \<rparr>
             in (case signPackage rt pk packageId requestId recipient category flds
                       (base64 rt encryptedData) metadata of
                  Inl e \<Rightarrow> Inl (''Failed to create package: '' @ e)
                | Inr signature \<Rightarrow>
                    Inr \<lparr> pk_packageId = packageId, pk_requestId = requestId,
                          pk_recipient = recipient, pk_category = category,
                          pk_fields = flds,
                          pk_encryptedData = base64 rt encryptedData,
                          pk_iv = base64 rt iv, pk_authTag = base64 rt authTag,
                          pk_signature = signature, pk_metadata = metadata \<rparr>))))"

definition verifyPackage :: "PackagerRuntime \<Rightarrow> DataPackager \<Rightarrow> DataPackage \<Rightarrow> bool" where
  "verifyPackage rt pk pkg =
     (let canonical =
            JObject [(''packageId'', JString (pk_packageId pkg)),
                     (''requestId'', JString (pk_requestId pkg)),
                     (''recipient'', JString (pk_recipient pkg)),
                     (''category'', JString (pk_category pkg)),
                     (''fields'', JArray (map JString (pk_fields pkg))),
                     (''encryptedData'', JString (pk_encryptedData pkg)),
                     (''metadata'', metadataJson (pk_metadata pkg))]
      in (case rsaVerify rt (publicKey pk) canonical (pk_signature pkg) of
            Inl e \<Rightarrow> False
          | Inr ok \<Rightarrow> ok))"




subsection \<open>Packager scenarios\<close>

definition scenarioPackager :: DataPackager where
  "scenarioPackager = \<lparr> privateKey = ''private-pem'', publicKey = ''public-pem'' \<rparr>"

definition scenarioOptions :: PackageOptions where
  "scenarioOptions = \<lparr> po_expirationMinutes = None, po_oneTimeUse = Some True,
                       watermark = None, po_encryptionKey = None \<rparr>"

text \<open>The object signed for the package of the scenario.\<close>

definition scenarioCanonical :: json where
  "scenarioCanonical =
     JObject [(''packageId'', JString ''p1''),
              (''requestId'', JString ''req-1''),
              (''recipient'', JString ''clinic-7''),
              (''category'', JString ''medical''),
              (''fields'', JArray [JString ''name'']),
              (''encryptedData'', JString ''AA''),
              (''metadata'', JObject [(''createdAt'', JNumber 0),
                                      (''expiresAt'', JNumber 3600000),
                                      (''oneTimeUse'', JBool True),
                                      (''watermarked'', JBool False)])]"

text \<open>
  A runtime for the scenarios. Its cipher returns the IV as ciphertext and the key as
  tag. Its signer signs every object under the private key of the scenario, with a
  signature of four characters: one signature for the object of the scenario and
  another, shared, for all other objects. Its verifier accepts, under the public key
  of the scenario, the signature the signer makes for the object.
\<close>

definition packagerScenarioRuntime :: PackagerRuntime where
  "packagerScenarioRuntime =
     \<lparr> stringifyData = (\<lambda>d. ''{}''),
       aes256gcm = (\<lambda>key iv text. Inr (iv, key)),
       base64 = letterPerByte,
       sha256Hex = (\<lambda>s. ''00''),
       rsaSign = (\<lambda>key m. if key = ''private-pem''
                           then Inr (if m = scenarioCanonical then ''5167'' else ''0000'')
                           else Inl ''Error: unsupported''),
       rsaVerify = (\<lambda>key m s. Inr (key = ''public-pem'' \<and>
                                     s = (if m = scenarioCanonical then ''5167'' else ''0000''))) \<rparr>"

text \<open>
  The same runtime with a signer that gives every object the same signature, which
  the verifier accepts for every object.
\<close>

definition constantSignerRuntime :: PackagerRuntime where
  "constantSignerRuntime =
     packagerScenarioRuntime
       \<lparr> rsaSign := (\<lambda>key m. if key = ''private-pem'' then Inr ''0000''
                               else Inl ''Error: unsupported''),
         rsaVerify := (\<lambda>key m s. Inr (key = ''public-pem'' \<and> s = ''0000'')) \<rparr>"


definition scenarioPackage :: DataPackage where
  "scenarioPackage =
     \<lparr> pk_packageId = ''p1'', pk_requestId = ''req-1'', pk_recipient = ''clinic-7'',
       pk_category = ''medical'', pk_fields = [''name''], pk_encryptedData = ''AA'',
       pk_iv = ''AA'', pk_authTag = ''A'', pk_signature = ''5167'',
       pk_metadata = \<lparr> pm_createdAt = 0, pm_expiresAt = 3600000, oneTimeUse = True,
                       watermarked = False \<rparr> \<rparr>"

section \<open>Encrypted document store (storage/encrypted-store.ts)\<close>

datatype CipherAlgorithm = Aes256Gcm

datatype KeyDerivation = Argon2id | Scrypt

record EncryptionConfig =
  algorithm :: CipherAlgorithm
  keyDerivation :: KeyDerivation
  saltLength :: nat
  ivLength :: nat
  authTagLength :: nat

record VaultStorageConfig =
  vaultDir :: string
  encryption :: EncryptionConfig

record DocumentMetadata =
  created :: int
  modified :: int
  size :: nat
  version :: int

record EncryptedDocument =
  ed_id :: string
  ed_category :: string
  ed_encryptedData :: bytes
  ed_iv :: bytes
  ed_authTag :: bytes
  ed_salt :: bytes
  ed_metadata :: DocumentMetadata

text \<open>
  The object that \<^verbatim>\<open>persistDocument\<close> serializes into a document file and that
  \<^verbatim>\<open>loadDocument\<close> parses back: the buffers are base64 strings. A file holds this
  object; \<^verbatim>\<open>JSON.stringify\<close> and \<^verbatim>\<open>JSON.parse\<close> of it are not modelled further.
\<close>

record SerializedDocument =
  sd_id :: string
  sd_category :: string
  sd_encryptedData :: string
  sd_iv :: string
  sd_authTag :: string
  sd_salt :: string
  sd_metadata :: DocumentMetadata

text \<open>
  The storage object with the part of the disk it works on: the document files by
  path and the vault's salt file.
\<close>

record EncryptedVaultStorage =
  config :: VaultStorageConfig
  masterKey :: "bytes option"
  documentFiles :: "string \<rightharpoonup> SerializedDocument"
  saltFile :: "bytes option"

text \<open>
  What the store takes from the runtime: \<open>scryptKey\<close> is \<^verbatim>\<open>crypto.scrypt\<close> to 32
  bytes (\<^verbatim>\<open>deriveKey\<close>); \<open>pbkdf2\<close> is \<^verbatim>\<open>crypto.pbkdf2\<close> with 10000 rounds of SHA-256
  to 32 bytes (\<^verbatim>\<open>deriveDocumentKey\<close>); \<open>gcmEncrypt\<close> takes the tag length, the key, the
  IV and the plaintext to the ciphertext and the authentication tag; \<open>gcmDecrypt\<close>
  takes the tag length, the key, the IV, the tag and the ciphertext to the plaintext
  and throws when the tag does not verify; \<open>encodeBase64\<close> and \<open>decodeBase64\<close> are
  \<^verbatim>\<open>Buffer.toString("base64")\<close> and \<^verbatim>\<open>Buffer.from(s, "base64")\<close>; \<open>utf8\<close> is
  \<^verbatim>\<open>Buffer.from(s, "utf-8")\<close>; \<open>pathJoin\<close> is \<^verbatim>\<open>path.join\<close>; \<open>writeFileError\<close> is the
  exception, if any, of creating the category directory and writing a file at a path.
  \<open>Inl\<close> carries the rendering of an exception.
\<close>

record StoreRuntime =
  scryptKey :: "string \<Rightarrow> bytes \<Rightarrow> string + bytes"
  pbkdf2 :: "bytes \<Rightarrow> bytes \<Rightarrow> string + bytes"
  gcmEncrypt :: "nat \<Rightarrow> bytes \<Rightarrow> bytes \<Rightarrow> bytes \<Rightarrow> string + (bytes \<times> bytes)"
  gcmDecrypt :: "nat \<Rightarrow> bytes \<Rightarrow> bytes \<Rightarrow> bytes \<Rightarrow> bytes \<Rightarrow> string + bytes"
  encodeBase64 :: "bytes \<Rightarrow> string"
  decodeBase64 :: "string \<Rightarrow> bytes"
  utf8 :: "string \<Rightarrow> bytes"
  pathJoin :: "string \<Rightarrow> string \<Rightarrow> string"
  writeFileError :: "string \<Rightarrow> string option"

text \<open>The argument \<^verbatim>\<open>data: Buffer | string\<close> of \<^verbatim>\<open>storeDocument\<close>.\<close>

datatype Payload = Buf bytes | Str string

definition getCategoryPath :: "StoreRuntime \<Rightarrow> EncryptedVaultStorage \<Rightarrow> string \<Rightarrow> string" where
  "getCategoryPath rt s category = pathJoin rt (vaultDir (config s)) category"

definition getDocumentPath ::
  "StoreRuntime \<Rightarrow> EncryptedVaultStorage \<Rightarrow> string \<Rightarrow> string \<Rightarrow> string" where
  "getDocumentPath rt s category docId =
     pathJoin rt (getCategoryPath rt s category) (docId @ ''.enc'')"

definition initialize ::
  "StoreRuntime \<Rightarrow> bytes \<Rightarrow> EncryptedVaultStorage \<Rightarrow> string
     \<Rightarrow> (string + unit) \<times> EncryptedVaultStorage" where
  "initialize rt randomSalt s passphrase =
     (case saltFile s of
        Some salt \<Rightarrow>
          (case scryptKey rt passphrase salt of
             Inl e \<Rightarrow> (Inl (''Failed to initialize vault: '' @ e), s)
           | Inr key \<Rightarrow> (Inr (), s\<lparr> masterKey := Some key \<rparr>))
      | None \<Rightarrow>
          (case writeFileError rt (pathJoin rt (vaultDir (config s)) ''.salt'') of
             Some e \<Rightarrow> (Inl (''Failed to initialize vault: '' @ e), s)
           | None \<Rightarrow>
               let s1 = s\<lparr> saltFile := Some randomSalt \<rparr>
               in (case scryptKey rt passphrase randomSalt of
                     Inl e \<Rightarrow> (Inl (''Failed to initialize vault: '' @ e), s1)
                   | Inr key \<Rightarrow> (Inr (), s1\<lparr> masterKey := Some key \<rparr>))))"

definition persistDocument ::
  "StoreRuntime \<Rightarrow> EncryptedVaultStorage \<Rightarrow> EncryptedDocument
     \<Rightarrow> string + EncryptedVaultStorage" where
  "persistDocument rt s doc =
     (let docPath = getDocumentPath rt s (ed_category doc) (ed_id doc);
          serialized =
            \<lparr> sd_id = ed_id doc, sd_category = ed_category doc,
              sd_encryptedData = encodeBase64 rt (ed_encryptedData doc),
              sd_iv = encodeBase64 rt (ed_iv doc),
              sd_authTag = encodeBase64 rt (ed_authTag doc),
              sd_salt = encodeBase64 rt (ed_salt doc),
              sd_metadata = ed_metadata doc \<rparr>
      in (case writeFileError rt docPath of
            Some e \<Rightarrow> Inl e
          | None \<Rightarrow> Inr (s\<lparr> documentFiles := (documentFiles s)(docPath \<mapsto> serialized) \<rparr>)))"

definition loadDocument ::
  "StoreRuntime \<Rightarrow> EncryptedVaultStorage \<Rightarrow> string \<Rightarrow> string \<Rightarrow> EncryptedDocument option" where
  "loadDocument rt s category docId =
     (case documentFiles s (getDocumentPath rt s category docId) of
        None \<Rightarrow> None
      | Some parsed \<Rightarrow>
          Some \<lparr> ed_id = sd_id parsed, ed_category = sd_category parsed,
                 ed_encryptedData = decodeBase64 rt (sd_encryptedData parsed),
                 ed_iv = decodeBase64 rt (sd_iv parsed),
                 ed_authTag = decodeBase64 rt (sd_authTag parsed),
                 ed_salt = decodeBase64 rt (sd_salt parsed),
                 ed_metadata = sd_metadata parsed \<rparr>)"

definition storeDocument ::
  "StoreRuntime \<Rightarrow> int \<Rightarrow> bytes \<Rightarrow> bytes \<Rightarrow> EncryptedVaultStorage \<Rightarrow> string \<Rightarrow> string
     \<Rightarrow> Payload \<Rightarrow> (string + EncryptedDocument) \<times> EncryptedVaultStorage" where
  "storeDocument rt now randomIv randomSalt s category docId payload =
     (case masterKey s of
        None \<Rightarrow> (Inl ''Vault not initialized'', s)
      | Some mk \<Rightarrow>
          let dataBuffer = (case payload of Str text \<Rightarrow> utf8 rt text | Buf b \<Rightarrow> b);
              iv = randomIv;
              salt = randomSalt
          in (case pbkdf2 rt mk salt of
                Inl e \<Rightarrow> (Inl (''Failed to store document: '' @ e), s)
              | Inr docKey \<Rightarrow>
                  (case gcmEncrypt rt (authTagLength (encryption (config s))) docKey iv
                          dataBuffer of
                     Inl e \<Rightarrow> (Inl (''Failed to store document: '' @ e), s)
                   | Inr (encryptedData, authTag) \<Rightarrow>
                       let doc = \<lparr> ed_id = docId, ed_category = category,
                                   ed_encryptedData = encryptedData, ed_iv = iv,
                                   ed_authTag = authTag, ed_salt = salt,
                                   ed_metadata = \<lparr> created = now, modified = now,
                                                   size = length dataBuffer, version = 1 \<rparr> \<rparr>
                       in (case persistDocument rt s doc of
                             Inl e \<Rightarrow> (Inl (''Failed to store document: '' @ e), s)
                           | Inr s' \<Rightarrow> (Inr doc, s')))))"

definition retrieveDocument ::
  "StoreRuntime \<Rightarrow> EncryptedVaultStorage \<Rightarrow> string \<Rightarrow> string \<Rightarrow> string + bytes" where
  "retrieveDocument rt s category docId =
     (case masterKey s of
        None \<Rightarrow> Inl ''Vault not initialized''
      | Some mk \<Rightarrow>
          (case loadDocument rt s category docId of
             None \<Rightarrow> Inl ''Document not found''
           | Some doc \<Rightarrow>
               (case pbkdf2 rt mk (ed_salt doc) of
                  Inl e \<Rightarrow> Inl (''Failed to retrieve document: '' @ e)
                | Inr docKey \<Rightarrow>
                    (case gcmDecrypt rt (authTagLength (encryption (config s))) docKey
                            (ed_iv doc) (ed_authTag doc) (ed_encryptedData doc) of
                       Inl e \<Rightarrow> Inl (''Failed to retrieve document: '' @ e)
                     | Inr decryptedData \<Rightarrow> Inr decryptedData))))"

definition deleteDocument ::
  "StoreRuntime \<Rightarrow> EncryptedVaultStorage \<Rightarrow> string \<Rightarrow> string
     \<Rightarrow> (string + unit) \<times> EncryptedVaultStorage" where
  "deleteDocument rt s category docId =
     (let docPath = getDocumentPath rt s category docId
      in if documentFiles s docPath = None then (Inl ''Document not found'', s)
         else (Inr (), s\<lparr> documentFiles := (documentFiles s)(docPath := None) \<rparr>))"

definition createDefaultVaultConfig :: "string \<Rightarrow> VaultStorageConfig" where
  "createDefaultVaultConfig dir =
     \<lparr> vaultDir = dir,
       encryption = \<lparr> algorithm = Aes256Gcm, keyDerivation = Scrypt, saltLength = 32,
                      ivLength = 16, authTagLength = 16 \<rparr> \<rparr>"

subsection \<open>Store scenarios\<close>

text \<open>
  A runtime for the scenarios. The cipher reverses the text and uses the key followed
  by the IV, cut to the tag length, as tag; decryption throws unless the tag is that of
  the key and the IV. A byte is rendered as the character of its code.
\<close>

definition storeScenarioRuntime :: StoreRuntime where
  "storeScenarioRuntime =
     \<lparr> scryptKey = (\<lambda>passphrase salt. Inr salt),
       pbkdf2 = (\<lambda>key salt. Inr (key @ salt)),
       gcmEncrypt = (\<lambda>n key iv text. Inr (rev text, take n (key @ iv))),
       gcmDecrypt = (\<lambda>n key iv tag text.
          if tag = take n (key @ iv) then Inr (rev text)
          else Inl ''Error: Unsupported state or unable to authenticate data''),
       encodeBase64 = map (\<lambda>b. char_of (unat b)),
       decodeBase64 = map (\<lambda>c. of_nat (of_char c)),
       utf8 = map (\<lambda>c. of_nat (of_char c)),
       pathJoin = (\<lambda>a b. a @ ''/'' @ b),
       writeFileError = (\<lambda>p. None) \<rparr>"

definition freshVault :: EncryptedVaultStorage where
  "freshVault = \<lparr> config = createDefaultVaultConfig ''vault'', masterKey = None,
                   documentFiles = Map.empty, saltFile = None \<rparr>"

definition openVault :: EncryptedVaultStorage where
  "openVault = snd (initialize storeScenarioRuntime [9, 9] freshVault ''passphrase'')"

section \<open>Approval workflow: properties\<close>

lemma usesLeft_recordFulfillment:
  "usesLeft w rid = Some n \<Longrightarrow> usesLeft (snd (recordFulfillment w rid)) rid = Some (n - 1)"
  by (auto simp: usesLeft_def recordFulfillment_def split: option.splits)

lemma usesLeft_recordFulfillments:
  "usesLeft w rid = Some n \<Longrightarrow> usesLeft (recordFulfillments k w rid) rid = Some (n - int k)"
proof (induction k arbitrary: w n)
  case 0
  then show ?case by simp
next
  case (Suc k)
  from Suc.prems have "usesLeft (snd (recordFulfillment w rid)) rid = Some (n - 1)"
    by (rule usesLeft_recordFulfillment)
  from Suc.IH [OF this] show ?case by simp
qed

lemma recordFulfillment_status:
  "approvals w rid = Some a \<Longrightarrow>
   map_option status (approvals (snd (recordFulfillment w rid)) rid) = Some (status a)"
  by (auto simp: recordFulfillment_def split: option.splits)

lemma recordFulfillment_found:
  "approvals w rid = Some a \<Longrightarrow> fst (recordFulfillment w rid) = True"
  by (simp add: recordFulfillment_def split: option.splits)

text \<open>
  Claim C10. \<^verbatim>\<open>recordFulfillment\<close> returns true for every id that has an approval
  record, whatever the status of the approval, and leaves that status as it is; when
  \<^verbatim>\<open>usesRemaining\<close> is tracked it is decremented by one with no lower bound, so that
  \<open>k\<close> calls take \<open>n\<close> remaining uses to \<open>n - k\<close>, below zero once \<open>k > n\<close>.
\<close>

theorem recordFulfillment_unguarded:
  assumes "approvals w requestId = Some approval"
  shows "fst (recordFulfillment w requestId) = True
       \<and> map_option status (approvals (snd (recordFulfillment w requestId)) requestId)
           = Some (status approval)
       \<and> (\<forall>n. usesLeft w requestId = Some n \<longrightarrow>
            usesLeft (snd (recordFulfillment w requestId)) requestId = Some (n - 1))
       \<and> (\<forall>n k. usesLeft w requestId = Some n \<longrightarrow>
            usesLeft (recordFulfillments k w requestId) requestId = Some (n - int k))"
proof -
  note recordFulfillment_found [OF assms]
  moreover note recordFulfillment_status [OF assms]
  ultimately show ?thesis
    using usesLeft_recordFulfillment usesLeft_recordFulfillments by blast
qed

theorem recordFulfillment_unguarded_witness:
  "approvals rejectedOnce ''req-1'' = Some (approvalRecord Rejected singleUse)
   \<and> fst (recordFulfillment rejectedOnce ''req-1'') = True
   \<and> usesLeft rejectedOnce ''req-1'' = Some 1
   \<and> usesLeft (recordFulfillments 3 rejectedOnce ''req-1'') ''req-1'' = Some (- 2)"
proof -
  have a: "approvals rejectedOnce ''req-1'' = Some (approvalRecord Rejected singleUse)"
    by (simp add: rejectedOnce_def)
  have u: "usesLeft rejectedOnce ''req-1'' = Some 1"
    by (simp add: usesLeft_def a approvalRecord_def singleUse_def)
  from recordFulfillment_unguarded [OF a] u
  have "fst (recordFulfillment rejectedOnce ''req-1'') = True"
    and "usesLeft (recordFulfillments 3 rejectedOnce ''req-1'') ''req-1'' = Some (1 - int 3)"
    by blast+
  with a u show ?thesis by simp
qed

lemma submitted_pending: "pendingRequests submittedWorkflow ''req-1'' = Some sampleRequest"
  by (simp add: submittedWorkflow_def submitRequest_def emptyWorkflow_def sampleRequest_def Let_def)

lemma submitted_approval:
  "approvals submittedWorkflow ''req-1'' =
     Some \<lparr> ap_requestId = ''req-1'', status = Pending, approvedBy = None, approvedAt = None,
            rejectedBy = None, rejectedAt = None, reason = None, restrictions = None \<rparr>"
  by (simp add: submittedWorkflow_def submitRequest_def emptyWorkflow_def sampleRequest_def Let_def)

lemma approved_first:
  "approveRequest 20 submittedWorkflow ''req-1'' ''owner'' approveSingleUse =
     (Inr \<lparr> ap_requestId = ''req-1'', status = Approved, approvedBy = Some ''owner'',
            approvedAt = Some 20, rejectedBy = None, rejectedAt = None, reason = None,
            restrictions = Some singleUse \<rparr>,
      \<lparr> pendingRequests = Map.empty, 
        approvals = [''req-1'' \<mapsto> \<lparr> ap_requestId = ''req-1'', status = Approved, approvedBy = Some ''owner'',
            approvedAt = Some 20, rejectedBy = None, rejectedAt = None, reason = None,
            restrictions = Some singleUse \<rparr>] \<rparr>)"
  by (simp add: approveRequest_def submitted_pending submitted_approval sampleRequest_def approveSingleUse_def Let_def)
     (simp add: submittedWorkflow_def submitRequest_def emptyWorkflow_def sampleRequest_def Let_def)

lemma approveRequest_twice:
  assumes "approveRequest now w rid who d = (Inr a, w')"
  shows "approveRequest now' w' rid who' d' = (Inl ''Request not found'', w')"
  using assms
  by (auto simp: approveRequest_def Let_def split: option.splits if_splits)

text \<open>
  Claim C2. The claim asks that a second \<^verbatim>\<open>approveRequest\<close> on an id that was
  approved or rejected fails with the reason "Request already processed". The first
  call removes the request from the pending map, so the second call stops at the
  lookup guard that precedes the status check: it fails, with the reason
  "Request not found". The theorem runs both calls on a request submitted at time 10
  and decided at time 20, once approved and once rejected.
\<close>

theorem approveRequest_second_call:
  "map_sum id status (fst (approveRequest 20 submittedWorkflow ''req-1'' ''owner'' approveSingleUse))
     = Inr Approved
   \<and> map_option status (approvals approvedWorkflow ''req-1'') = Some Approved
   \<and> map_option status (approvals rejectedWorkflow ''req-1'') = Some Rejected
   \<and> fst (approveRequest 30 approvedWorkflow ''req-1'' ''owner'' approveSingleUse)
       = Inl ''Request not found''
   \<and> fst (approveRequest 30 approvedWorkflow ''req-1'' ''owner'' approveSingleUse)
       \<noteq> Inl ''Request already processed''
   \<and> fst (approveRequest 30 rejectedWorkflow ''req-1'' ''owner'' rejectDecision)
       = Inl ''Request not found''"
  by (simp add: approvedWorkflow_def rejectedWorkflow_def approved_first)
   (simp add: approveRequest_def submitted_pending submitted_approval sampleRequest_def rejectDecision_def Let_def)

text \<open>
  Claim C7, as stated, fails where \<^verbatim>\<open>validUntil\<close> is set to 0: the source tests
  \<^verbatim>\<open>validUntil && Date.now() > validUntil\<close>, and 0 is falsy, so an approval whose
  \<^verbatim>\<open>validUntil\<close> is the epoch is fulfillable at time 5 although that instant has passed.
\<close>

theorem canFulfillRequest_epoch_counterexample:
  "canFulfillRequest 5 epochApproval ''req-1'' = True
   \<and> canFulfillRequest_spec 5 epochApproval ''req-1'' = False"
  by (simp add: canFulfillRequest_def canFulfillRequest_spec_def epochApproval_def approvalRecord_def)

text \<open>
  Claim C7, amended. \<^verbatim>\<open>canFulfillRequest\<close> is true exactly when the approval exists
  with status approved and, when restrictions are present, a \<^verbatim>\<open>validUntil\<close> that is
  set and not 0 has not passed and a tracked \<^verbatim>\<open>usesRemaining\<close> is positive. For an
  approved approval with \<^verbatim>\<open>maxUses = 1\<close> and \<^verbatim>\<open>usesRemaining = 1\<close>, one
  \<^verbatim>\<open>recordFulfillment\<close> returns true and leaves 0 uses, after which
  \<^verbatim>\<open>canFulfillRequest\<close> is false at any time.
\<close>

theorem canFulfillRequest_amended:
  "(canFulfillRequest now w requestId \<longleftrightarrow>
      (\<exists>a. approvals w requestId = Some a \<and> status a = Approved \<and>
         (\<forall>r. restrictions a = Some r \<longrightarrow>
            (\<forall>v. validUntil r = Some v \<and> v \<noteq> 0 \<longrightarrow> now \<le> v) \<and>
            (\<forall>n. usesRemaining r = Some n \<longrightarrow> 0 < n))))
   \<and> (approvals w requestId = Some approval \<and> status approval = Approved \<and>
        restrictions approval = Some r \<and> maxUses r = Some 1 \<and> usesRemaining r = Some 1 \<longrightarrow>
        fst (recordFulfillment w requestId) = True \<and>
        usesLeft (snd (recordFulfillment w requestId)) requestId = Some 0 \<and>
        canFulfillRequest later (snd (recordFulfillment w requestId)) requestId = False)"
proof -
  have iff: "canFulfillRequest now w requestId \<longleftrightarrow>
      (\<exists>a. approvals w requestId = Some a \<and> status a = Approved \<and>
         (\<forall>r. restrictions a = Some r \<longrightarrow>
            (\<forall>v. validUntil r = Some v \<and> v \<noteq> 0 \<longrightarrow> now \<le> v) \<and>
            (\<forall>n. usesRemaining r = Some n \<longrightarrow> 0 < n)))"
  proof (cases "approvals w requestId")
    case None
    then show ?thesis by (simp add: canFulfillRequest_def)
  next
    case (Some a)
    show ?thesis
    proof (cases "restrictions a")
      case None
      with Some show ?thesis by (simp add: canFulfillRequest_def)
    next
      case (Some r)
      with \<open>approvals w requestId = Some a\<close> show ?thesis
        by (cases "validUntil r"; cases "usesRemaining r")
           (auto simp: canFulfillRequest_def)
    qed
  qed
  have exhaust: "fst (recordFulfillment w requestId) = True \<and>
        usesLeft (snd (recordFulfillment w requestId)) requestId = Some 0 \<and>
        canFulfillRequest later (snd (recordFulfillment w requestId)) requestId = False"
    if "approvals w requestId = Some approval" "status approval = Approved"
       "restrictions approval = Some r" "usesRemaining r = Some 1"
    using that by (simp add: recordFulfillment_def usesLeft_def canFulfillRequest_def)
  from iff exhaust show ?thesis by blast
qed

lemma approved_record:
  "approvals approvedWorkflow ''req-1'' =
     Some \<lparr> ap_requestId = ''req-1'', status = Approved, approvedBy = Some ''owner'',
            approvedAt = Some 20, rejectedBy = None, rejectedAt = None, reason = None,
            restrictions = Some singleUse \<rparr>"
  by (simp add: approvedWorkflow_def approved_first)

theorem canFulfillRequest_amended_witness:
  "canFulfillRequest 50 approvedWorkflow ''req-1'' = True
   \<and> fst (recordFulfillment approvedWorkflow ''req-1'') = True
   \<and> usesLeft (snd (recordFulfillment approvedWorkflow ''req-1'')) ''req-1'' = Some 0
   \<and> canFulfillRequest 60 (snd (recordFulfillment approvedWorkflow ''req-1'')) ''req-1'' = False"
proof -
  let ?a = "\<lparr> ap_requestId = ''req-1'', status = Approved, approvedBy = Some ''owner'',
            approvedAt = Some 20, rejectedBy = None, rejectedAt = None, reason = None,
            restrictions = Some singleUse \<rparr>"
  note t = canFulfillRequest_amended [of 50 approvedWorkflow "''req-1''" ?a singleUse 60]
  have "\<exists>a. approvals approvedWorkflow ''req-1'' = Some a \<and> status a = Approved \<and>
         (\<forall>r. restrictions a = Some r \<longrightarrow>
            (\<forall>v. validUntil r = Some v \<and> v \<noteq> 0 \<longrightarrow> 50 \<le> v) \<and>
            (\<forall>n. usesRemaining r = Some n \<longrightarrow> 0 < n))"
    by (simp add: approved_record singleUse_def)
  with t have 1: "canFulfillRequest 50 approvedWorkflow ''req-1''" by blast
  have "approvals approvedWorkflow ''req-1'' = Some ?a \<and> status ?a = Approved \<and>
        restrictions ?a = Some singleUse \<and> maxUses singleUse = Some 1 \<and> usesRemaining singleUse = Some 1"
    by (simp add: approved_record singleUse_def)
  with t 1 show ?thesis by blast
qed


section \<open>Secure transport: properties\<close>

text \<open>
  Claim C6. \<^verbatim>\<open>validateAccessToken\<close> returns a token exactly when that token is stored
  under the id, the current time is not past its \<^verbatim>\<open>expiresAt\<close> and its \<^verbatim>\<open>used\<close>
  flag is false; once \<^verbatim>\<open>markTokenUsed\<close> has succeeded on the id, validation fails at
  every time, before the expiry as well.
\<close>

theorem validateAccessToken_iff:
  "(validateAccessToken now t tid = Some token \<longleftrightarrow>
      accessTokens t tid = Some token \<and> \<not> now > tk_expiresAt token \<and> \<not> used token)
   \<and> (fst (markTokenUsed t tid) = True \<longrightarrow>
        validateAccessToken later (snd (markTokenUsed t tid)) tid = None)"
  by (auto simp: validateAccessToken_def markTokenUsed_def split: option.splits)

lemma portalDelivered_token:
  "accessTokens portalDelivered ''ab12'' =
     Some \<lparr> tokenId = ''ab12'', tk_packageId = ''p1'', tk_recipient = ''clinic-7'',
            tk_encryptionKey = ''a2V5'', tk_expiresAt = 3600000, used = False \<rparr>"
  by (simp add: portalDelivered_def deliverPackage_def deliverViaPortal_def deliveryBy_def
      emptyTransport_def samplePackage_def Let_def)

theorem validateAccessToken_iff_witness:
  "validateAccessToken 100 portalDelivered ''ab12'' =
     Some \<lparr> tokenId = ''ab12'', tk_packageId = ''p1'', tk_recipient = ''clinic-7'',
            tk_encryptionKey = ''a2V5'', tk_expiresAt = 3600000, used = False \<rparr>
   \<and> fst (markTokenUsed portalDelivered ''ab12'') = True
   \<and> validateAccessToken 100 (snd (markTokenUsed portalDelivered ''ab12'')) ''ab12'' = None"
proof -
  let ?tok = "\<lparr> tokenId = ''ab12'', tk_packageId = ''p1'', tk_recipient = ''clinic-7'',
            tk_encryptionKey = ''a2V5'', tk_expiresAt = 3600000, used = False \<rparr>"
  note t = validateAccessToken_iff [of 100 portalDelivered "''ab12''" ?tok 100]
  have c: "accessTokens portalDelivered ''ab12'' = Some ?tok \<and> \<not> 100 > tk_expiresAt ?tok \<and> \<not> used ?tok"
    by (simp add: portalDelivered_token)
  have m: "fst (markTokenUsed portalDelivered ''ab12'') = True"
    by (simp add: markTokenUsed_def portalDelivered_token)
  from t c m show ?thesis by blast
qed

text \<open>
  Claim C8, as stated, fails for the methods api and channel. On an empty token store
  portal delivery records a token and returns its URL; api delivery returns a fresh id
  and a URL but records no token; channel delivery returns the package id alone, with
  no token and no URL.
\<close>

theorem deliverPackage_api_channel_counterexample:
  "portalArtifact_spec samplePackage
     (deliverPackage letterPerByte 0 ''ab12'' ''a2V5'' emptyTransport samplePackage (deliveryBy Portal))
   \<and> \<not> portalArtifact_spec samplePackage
     (deliverPackage letterPerByte 0 ''ab12'' ''a2V5'' emptyTransport samplePackage (deliveryBy Api))
   \<and> \<not> portalArtifact_spec samplePackage
     (deliverPackage letterPerByte 0 ''ab12'' ''a2V5'' emptyTransport samplePackage (deliveryBy Channel))"
  by (simp add: portalArtifact_spec_def deliverPackage_def deliverViaPortal_def deliverViaApi_def
      deliverViaChannel_def deliveryBy_def emptyTransport_def samplePackage_def Let_def)

text \<open>
  Claim C8, amended. Of the non-portal methods only email produces the artifact of
  portal delivery: the same result and the same token store as portal delivery with the
  same options, that is a token recorded under the delivery id and the URL
  \<^verbatim>\<open>{baseUrl}/vault/access/{tokenId}\<close>. Api delivery leaves the token store unchanged
  and returns a fresh delivery id, the URL \<^verbatim>\<open>{baseUrl}/api/vault/packages/{packageId}\<close>
  and the caller's key in base64; channel delivery leaves the token store unchanged and
  returns the package id as delivery id, with no URL and no key.
\<close>

theorem deliverPackage_by_method:
  "deliverPackage toBase64 now randomHex randomB64 t pkg (options\<lparr> dl_method := Email \<rparr>)
     = deliverPackage toBase64 now randomHex randomB64 t pkg (options\<lparr> dl_method := Portal \<rparr>)
   \<and> portalArtifact_spec pkg
       (deliverPackage toBase64 now randomHex randomB64 t pkg (options\<lparr> dl_method := Email \<rparr>))
   \<and> accessUrl (fst (deliverPackage toBase64 now randomHex randomB64 t pkg (options\<lparr> dl_method := Email \<rparr>)))
       = Some (baseUrl t @ ''/vault/access/'' @ randomHex)
   \<and> deliverPackage toBase64 now randomHex randomB64 t pkg (options\<lparr> dl_method := Api \<rparr>)
     = (\<lparr> success = True, deliveryId = Some randomHex,
          accessUrl = Some (baseUrl t @ ''/api/vault/packages/'' @ pk_packageId pkg),
          dr_encryptionKey = map_option toBase64 (dl_encryptionKey options),
          dr_error = None \<rparr>, t)
   \<and> deliverPackage toBase64 now randomHex randomB64 t pkg (options\<lparr> dl_method := Channel \<rparr>)
     = (\<lparr> success = True, deliveryId = Some (pk_packageId pkg), accessUrl = None,
          dr_encryptionKey = None, dr_error = None \<rparr>, t)"
  by (simp add: portalArtifact_spec_def deliverPackage_def deliverViaPortal_def deliverViaEmail_def
      deliverViaApi_def deliverViaChannel_def Let_def)


section \<open>Permission engine and field filtering: properties\<close>

lemma copyFields_restrict:
  "copyFields d flds acc = (\<lambda>k. if k \<in> set flds \<and> d k \<noteq> None then d k else acc k)"
  by (induction flds arbitrary: acc) (auto simp: fun_eq_iff split: option.splits)

lemma filterFields_no_wildcard:
  "''*'' \<notin> set flds \<Longrightarrow> filterFields d flds = d |` set flds"
  by (auto simp: filterFields_def copyFields_restrict restrict_map_def)

text \<open>
  Claim C9, as stated, fails: \<^verbatim>\<open>checkPermission\<close> compares "*" like any other field
  name. A request for "*" under a grant restricted to the field "name" is denied with
  the offending field "*", and a request for "name" under a grant whose field list is
  "*" is denied as well.
\<close>

theorem checkPermission_wildcard_counterexample:
  "checkPermission 0 (engineWith nameOnlyGrant) ''user-1'' ''medical'' [''*''] Read None
     = \<lparr> allowed = False, pc_reason = Some ''Access denied to fields: *'' \<rparr>
   \<and> checkPermission 0 (engineWith starGrant) ''user-1'' ''medical'' [''name''] Read None
     = \<lparr> allowed = False, pc_reason = Some ''Access denied to fields: name'' \<rparr>"
  by (simp add: checkPermission_def engineWith_def grantPermission_def nameOnlyGrant_def
      starGrant_def Let_def)

lemma checkConditions_not_fields: "\<not> deniedOnFields (checkConditions now p cx)"
  by (simp add: checkConditions_def deniedOnFields_def split: option.splits)

lemma filter_nonempty_iff: "filter (\<lambda>f. f \<notin> set g) flds \<noteq> [] \<longleftrightarrow> \<not> set flds \<subseteq> set g"
  by (auto simp: filter_empty_conv)

text \<open>
  Claim C9, amended. In \<^verbatim>\<open>checkPermission\<close> the value "*" is an ordinary field name:
  a check is denied on field-restriction grounds exactly when a grant for the category
  with the requested level is found, its field list is non-empty and some requested
  field is not literally in it; so a request that contains "*" under a non-empty field
  list without "*" is denied with the list of offending fields. The wildcard bypass is
  in \<^verbatim>\<open>DataPackager.filterFields\<close> only, which returns the data unfiltered whenever
  the requested fields contain "*".
\<close>

theorem checkPermission_fields_literal:
  "(deniedOnFields (checkPermission now e userId category flds level ctx) \<longleftrightarrow>
      (\<exists>userPerms perm granted.
         permissions e userId = Some userPerms \<and>
         find (\<lambda>p. pe_category p = category) userPerms = Some perm \<and>
         level \<in> set (pe_level perm) \<and>
         pe_fields perm = Some granted \<and> granted \<noteq> [] \<and> \<not> set flds \<subseteq> set granted))
   \<and> (permissions e userId = Some userPerms \<and>
        find (\<lambda>p. pe_category p = category) userPerms = Some perm \<and>
        level \<in> set (pe_level perm) \<and>
        pe_fields perm = Some granted \<and> granted \<noteq> [] \<and>
        ''*'' \<in> set flds \<and> ''*'' \<notin> set granted \<longrightarrow>
        checkPermission now e userId category flds level ctx
          = \<lparr> allowed = False,
              pc_reason = Some (''Access denied to fields: ''
                 @ joinWith '', '' (filter (\<lambda>f. f \<notin> set granted) flds)) \<rparr>)
   \<and> (''*'' \<in> set flds \<longrightarrow> filterFields d flds = d)"
proof (intro conjI)
  show "deniedOnFields (checkPermission now e userId category flds level ctx) \<longleftrightarrow>
      (\<exists>userPerms perm granted.
         permissions e userId = Some userPerms \<and>
         find (\<lambda>p. pe_category p = category) userPerms = Some perm \<and>
         level \<in> set (pe_level perm) \<and>
         pe_fields perm = Some granted \<and> granted \<noteq> [] \<and> \<not> set flds \<subseteq> set granted)"
  proof (cases "permissions e userId")
    case None
    then show ?thesis by (simp add: checkPermission_def deniedOnFields_def)
  next
    case (Some userPerms)
    note perms = this
    show ?thesis
    proof (cases "find (\<lambda>p. pe_category p = category) userPerms")
      case None
      with perms show ?thesis by (simp add: checkPermission_def deniedOnFields_def)
    next
      case (Some perm)
      note found = this
      then have ne: "userPerms \<noteq> []" by auto
      show ?thesis
      proof (cases "level \<in> set (pe_level perm)")
        case False
        with perms found ne show ?thesis
          by (simp add: checkPermission_def deniedOnFields_def)
      next
        case True
        note lvl = this
        show ?thesis
        proof (cases "pe_fields perm")
          case None
          with perms found ne lvl checkConditions_not_fields [of now perm ctx] show ?thesis
            by (auto simp: checkPermission_def Let_def deniedOnFields_def split: option.splits)
        next
          case (Some granted)
          show ?thesis
          proof (cases "granted \<noteq> [] \<and> \<not> set flds \<subseteq> set granted")
            case True
            then have "filter (\<lambda>f. f \<notin> set granted) flds \<noteq> []"
              by (simp add: filter_nonempty_iff)
            with True perms found ne lvl Some show ?thesis
              by (simp add: checkPermission_def Let_def deniedOnFields_def)
          next
            case False
            then have "granted = [] \<or> filter (\<lambda>f. f \<notin> set granted) flds = []"
              using filter_nonempty_iff [of granted flds] by blast
            with False perms found ne lvl Some checkConditions_not_fields [of now perm ctx]
            show ?thesis
              by (auto simp: checkPermission_def Let_def deniedOnFields_def split: option.splits)
          qed
        qed
      qed
    qed
  qed
next
  show "permissions e userId = Some userPerms \<and>
        find (\<lambda>p. pe_category p = category) userPerms = Some perm \<and>
        level \<in> set (pe_level perm) \<and>
        pe_fields perm = Some granted \<and> granted \<noteq> [] \<and>
        ''*'' \<in> set flds \<and> ''*'' \<notin> set granted \<longrightarrow>
        checkPermission now e userId category flds level ctx
          = \<lparr> allowed = False,
              pc_reason = Some (''Access denied to fields: ''
                 @ joinWith '', '' (filter (\<lambda>f. f \<notin> set granted) flds)) \<rparr>"
  proof
    assume h: "permissions e userId = Some userPerms \<and>
        find (\<lambda>p. pe_category p = category) userPerms = Some perm \<and>
        level \<in> set (pe_level perm) \<and>
        pe_fields perm = Some granted \<and> granted \<noteq> [] \<and>
        ''*'' \<in> set flds \<and> ''*'' \<notin> set granted"
    then have ne: "userPerms \<noteq> []" by auto
    from h have "filter (\<lambda>f. f \<notin> set granted) flds \<noteq> []"
      by (auto simp: filter_empty_conv)
    with h ne show "checkPermission now e userId category flds level ctx
          = \<lparr> allowed = False,
              pc_reason = Some (''Access denied to fields: ''
                 @ joinWith '', '' (filter (\<lambda>f. f \<notin> set granted) flds)) \<rparr>"
      by (simp add: checkPermission_def Let_def)
  qed
next
  show "''*'' \<in> set flds \<longrightarrow> filterFields d flds = d"
    by (simp add: filterFields_def)
qed

theorem checkPermission_fields_literal_witness:
  "deniedOnFields (checkPermission 0 (engineWith nameOnlyGrant) ''user-1'' ''medical'' [''*''] Read None)
   \<and> checkPermission 0 (engineWith nameOnlyGrant) ''user-1'' ''medical'' [''*''] Read None
       = \<lparr> allowed = False, pc_reason = Some ''Access denied to fields: *'' \<rparr>
   \<and> filterFields sampleData [''*''] = sampleData"
proof -
  note t = checkPermission_fields_literal [of 0 "engineWith nameOnlyGrant" "''user-1''"
      "''medical''" "[''*'']" Read None "[nameOnlyGrant]" nameOnlyGrant "[''name'']" sampleData]
  have h: "permissions (engineWith nameOnlyGrant) ''user-1'' = Some [nameOnlyGrant] \<and>
        find (\<lambda>p. pe_category p = ''medical'') [nameOnlyGrant] = Some nameOnlyGrant \<and>
        Read \<in> set (pe_level nameOnlyGrant) \<and>
        pe_fields nameOnlyGrant = Some [''name''] \<and> [''name''] \<noteq> [] \<and>
        ''*'' \<in> set [''*''] \<and> ''*'' \<notin> set [''name''] \<and> \<not> set [''*''] \<subseteq> set [''name'']"
    by (simp add: engineWith_def grantPermission_def nameOnlyGrant_def)
  from h have ex: "\<exists>userPerms perm granted.
         permissions (engineWith nameOnlyGrant) ''user-1'' = Some userPerms \<and>
         find (\<lambda>p. pe_category p = ''medical'') userPerms = Some perm \<and>
         Read \<in> set (pe_level perm) \<and>
         pe_fields perm = Some granted \<and> granted \<noteq> [] \<and> \<not> set [''*''] \<subseteq> set granted"
    by blast
  from t ex have 1: "deniedOnFields (checkPermission 0 (engineWith nameOnlyGrant) ''user-1'' ''medical'' [''*''] Read None)"
    by blast
  from t h have 2: "checkPermission 0 (engineWith nameOnlyGrant) ''user-1'' ''medical'' [''*''] Read None
       = \<lparr> allowed = False, pc_reason = Some (''Access denied to fields: ''
                 @ joinWith '', '' (filter (\<lambda>f. f \<notin> set [''name'']) [''*''])) \<rparr>"
    by blast
  from t have 3: "filterFields sampleData [''*''] = sampleData" by simp
  from 1 2 3 show ?thesis by simp
qed


section \<open>Authentication manager: properties\<close>

lemma createUser_ok:
  assumes "createUser rt t0 randomSalt sid0 m0 userId passphrase mfa = (AuthOk s0, m1)"
  shows "\<exists>a1. authData m1 userId = Some a1 \<and> mfaEnabled a1 = mfa \<and> sa_salt a1 = randomSalt \<and>
           scrypt rt passphrase (sa_salt a1) = Inr (passphraseHash a1)"
  using assms
  by (auto simp: createUser_def pushSession_def Let_def split: if_splits sum.splits option.splits)

lemma validateFactor_correct:
  "scrypt rt passphrase (sa_salt a) = Inr (passphraseHash a) \<Longrightarrow>
   validateFactor rt a (PassphraseFactor passphrase) = Inr True"
  by (simp add: timingSafeEqual_def)

text \<open>
  Claim C3. Let a user be created by \<^verbatim>\<open>createUser\<close> with \<^verbatim>\<open>mfaEnabled = true\<close>, and
  let the manager later hold that user with the passphrase hash, salt and MFA flag of
  the creation (devices and sessions may have changed). Then \<^verbatim>\<open>authenticate\<close> with the
  passphrase of the creation fails with "Multi-factor authentication required" and
  \<^verbatim>\<open>requiresMfa = true\<close>, and the manager, the user's session list included, is
  unchanged.
\<close>

theorem authenticate_passphrase_requires_mfa:
  assumes "createUser rt t0 randomSalt sid0 m0 userId passphrase True = (AuthOk s0, m1)"
    and "authData m1 userId = Some a1"
    and "authData m userId = Some a"
    and "passphraseHash a = passphraseHash a1 \<and> sa_salt a = sa_salt a1 \<and> mfaEnabled a = mfaEnabled a1"
  shows "authenticate rt now randomHex m userId (PassphraseFactor passphrase)
           = (AuthFail ''Multi-factor authentication required'' (Some True), m)
       \<and> sessionsOf (snd (authenticate rt now randomHex m userId (PassphraseFactor passphrase))) userId
           = sessionsOf m userId"
proof -
  from createUser_ok [OF assms(1)] assms(2)
  have "mfaEnabled a1" and "scrypt rt passphrase (sa_salt a1) = Inr (passphraseHash a1)"
    by auto
  with assms(4) have mfa: "mfaEnabled a"
    and sc: "scrypt rt passphrase (sa_salt a) = Inr (passphraseHash a)" by auto
  from sc have "validateFactor rt a (PassphraseFactor passphrase) = Inr True"
    by (rule validateFactor_correct)
  with mfa assms(3) show ?thesis by (simp add: authenticate_def)
qed

lemma aliceCreated_run:
  "createUser scenarioRuntime 0 ''5a17'' ''s0'' noUsers ''alice'' ''hunter2'' True =
     (AuthOk (createSession 0 ''s0'' ''alice'' [TPassphrase] None), aliceCreated)"
  by (simp add: aliceCreated_def createUser_def scenarioRuntime_def noUsers_def Let_def)

lemma aliceCreated_record:
  "authData aliceCreated ''alice'' =
     Some \<lparr> sa_userId = ''alice'', passphraseHash = ''5a17hunter2'', sa_salt = ''5a17'',
            mfaEnabled = True, authorizedDevices = [],
            sessions = [createSession 0 ''s0'' ''alice'' [TPassphrase] None] \<rparr>"
  by (simp add: aliceCreated_def createUser_def scenarioRuntime_def noUsers_def pushSession_def Let_def)

theorem authenticate_passphrase_requires_mfa_witness:
  "createUser scenarioRuntime 0 ''5a17'' ''s0'' noUsers ''alice'' ''hunter2'' True =
     (AuthOk (createSession 0 ''s0'' ''alice'' [TPassphrase] None), aliceCreated)
   \<and> authenticate scenarioRuntime 50 ''s1'' aliceCreated ''alice'' (PassphraseFactor ''hunter2'')
       = (AuthFail ''Multi-factor authentication required'' (Some True), aliceCreated)
   \<and> sessionsOf (snd (authenticate scenarioRuntime 50 ''s1'' aliceCreated ''alice''
         (PassphraseFactor ''hunter2''))) ''alice'' = [createSession 0 ''s0'' ''alice'' [TPassphrase] None]"
proof -
  have s: "sessionsOf aliceCreated ''alice'' = [createSession 0 ''s0'' ''alice'' [TPassphrase] None]"
    by (simp add: sessionsOf_def aliceCreated_record)
  from authenticate_passphrase_requires_mfa [OF aliceCreated_run aliceCreated_record aliceCreated_record, of 50 "''s1''"]
    aliceCreated_run s
  show ?thesis by simp
qed

text \<open>
  Claim C4. For the same user, whose MFA flag is set, \<^verbatim>\<open>authenticateMfa\<close> with the
  one-element list holding the passphrase of the creation succeeds when the write of
  the auth file succeeds. The session it returns carries the drawn session id, the
  user's id, the factor list with the single entry passphrase, the creation time and
  an expiry 24 hours (86400000 ms) later, and no device; that session is appended to
  the user's session list. Neither a minimum number of factors nor a factor other
  than the passphrase is asked for.
\<close>

theorem authenticateMfa_single_passphrase:
  assumes "createUser rt t0 randomSalt sid0 m0 userId passphrase True = (AuthOk s0, m1)"
    and "authData m1 userId = Some a1"
    and "authData m userId = Some a"
    and "passphraseHash a = passphraseHash a1 \<and> sa_salt a = sa_salt a1 \<and> mfaEnabled a = mfaEnabled a1"
    and "session = \<lparr> sessionId = randomHex, ss_userId = userId, factors = [TPassphrase],
                     ss_expiresAt = now + 86400000, ss_createdAt = now, ss_deviceId = None \<rparr>"
    and "writeAuthFile rt (authData (pushSession m userId a session)) = None"
  shows "mfaEnabled a
       \<and> authenticateMfa rt now randomHex m userId [PassphraseFactor passphrase]
           = (AuthOk session, pushSession m userId a session)
       \<and> sessionId session = randomHex
       \<and> ss_userId session = userId
       \<and> factors session = [TPassphrase]
       \<and> ss_createdAt session = now
       \<and> ss_expiresAt session = now + 86400000
       \<and> ss_deviceId session = None
       \<and> authData (snd (authenticateMfa rt now randomHex m userId [PassphraseFactor passphrase])) userId
           = Some (a\<lparr> sessions := sessions a @ [session] \<rparr>)
       \<and> sessionsOf (snd (authenticateMfa rt now randomHex m userId [PassphraseFactor passphrase])) userId
           = sessionsOf m userId @ [session]"
proof -
  from createUser_ok [OF assms(1)] assms(2)
  have "mfaEnabled a1" and "scrypt rt passphrase (sa_salt a1) = Inr (passphraseHash a1)"
    by auto
  with assms(4) have mfa: "mfaEnabled a"
    and sc: "scrypt rt passphrase (sa_salt a) = Inr (passphraseHash a)" by auto
  from sc have v: "validateFactor rt a (PassphraseFactor passphrase) = Inr True"
    by (rule validateFactor_correct)
  have cs: "createSession now randomHex userId [TPassphrase] None = session"
    using assms(5) by (simp add: createSession_def)
  have run: "authenticateMfa rt now randomHex m userId [PassphraseFactor passphrase]
           = (AuthOk session, pushSession m userId a session)"
    using v assms(3,6) by (simp add: authenticateMfa_def Let_def cs)
  have rec: "authData (pushSession m userId a session) userId
           = Some (a\<lparr> sessions := sessions a @ [session] \<rparr>)"
    by (simp add: pushSession_def)
  have lst: "sessionsOf (pushSession m userId a session) userId = sessionsOf m userId @ [session]"
    using assms(3) by (simp add: sessionsOf_def pushSession_def)
  have flds: "sessionId session = randomHex \<and> ss_userId session = userId
       \<and> factors session = [TPassphrase] \<and> ss_createdAt session = now
       \<and> ss_expiresAt session = now + 86400000 \<and> ss_deviceId session = None"
    using assms(5) by simp
  from run rec lst mfa flds show ?thesis by simp
qed

theorem authenticateMfa_single_passphrase_witness:
  "fst (authenticateMfa scenarioRuntime 50 ''s1'' aliceCreated ''alice'' [PassphraseFactor ''hunter2''])
     = AuthOk \<lparr> sessionId = ''s1'', ss_userId = ''alice'', factors = [TPassphrase],
                ss_expiresAt = 86400050, ss_createdAt = 50, ss_deviceId = None \<rparr>
   \<and> sessionsOf (snd (authenticateMfa scenarioRuntime 50 ''s1'' aliceCreated ''alice''
        [PassphraseFactor ''hunter2''])) ''alice''
     = [\<lparr> sessionId = ''s0'', ss_userId = ''alice'', factors = [TPassphrase],
          ss_expiresAt = 86400000, ss_createdAt = 0, ss_deviceId = None \<rparr>,
        \<lparr> sessionId = ''s1'', ss_userId = ''alice'', factors = [TPassphrase],
          ss_expiresAt = 86400050, ss_createdAt = 50, ss_deviceId = None \<rparr>]"
proof -
  let ?a = "\<lparr> sa_userId = ''alice'', passphraseHash = ''5a17hunter2'', sa_salt = ''5a17'',
            mfaEnabled = True, authorizedDevices = [],
            sessions = [createSession 0 ''s0'' ''alice'' [TPassphrase] None] \<rparr>"
  let ?s = "\<lparr> sessionId = ''s1'', ss_userId = ''alice'', factors = [TPassphrase],
                ss_expiresAt = 50 + 86400000, ss_createdAt = 50, ss_deviceId = None \<rparr>"
  have s: "sessionsOf aliceCreated ''alice''
             = [\<lparr> sessionId = ''s0'', ss_userId = ''alice'', factors = [TPassphrase],
                  ss_expiresAt = 86400000, ss_createdAt = 0, ss_deviceId = None \<rparr>]"
    by (simp add: sessionsOf_def aliceCreated_record createSession_def)
  have w: "writeAuthFile scenarioRuntime (authData (pushSession aliceCreated ''alice'' ?a ?s)) = None"
    by (simp add: scenarioRuntime_def)
  note t = authenticateMfa_single_passphrase
    [OF aliceCreated_run aliceCreated_record aliceCreated_record _ refl w]
  from t have r: "authenticateMfa scenarioRuntime 50 ''s1'' aliceCreated ''alice'' [PassphraseFactor ''hunter2'']
     = (AuthOk ?s, pushSession aliceCreated ''alice'' ?a ?s)"
    by simp
  from t have q: "sessionsOf (snd (authenticateMfa scenarioRuntime 50 ''s1'' aliceCreated ''alice''
        [PassphraseFactor ''hunter2''])) ''alice''
     = sessionsOf aliceCreated ''alice'' @ [?s]"
    by blast
  show ?thesis unfolding q s using r by simp
qed

section \<open>Data packager: properties\<close>









text \<open>
  Part (2) does not follow from the keys forming a pair alone: under a signer that
  gives every object the same signature the public key verifies what the private key
  signs, and \<^verbatim>\<open>verifyPackage\<close> accepts the created package with another recipient.
\<close>

lemma verifyPackage_constant_signer:
  "createPackage constantSignerRuntime scenarioPackager 0 ''p1'' [7] [1, 2]
     ''req-1'' ''clinic-7'' ''medical'' [''name''] Map.empty scenarioOptions
     = Inr (scenarioPackage\<lparr> pk_signature := ''0000'' \<rparr>)
   \<and> (\<forall>m s. rsaSign constantSignerRuntime (privateKey scenarioPackager) m = Inr s \<longrightarrow>
             rsaVerify constantSignerRuntime (publicKey scenarioPackager) m s = Inr True)
   \<and> verifyPackage constantSignerRuntime scenarioPackager
       (scenarioPackage\<lparr> pk_signature := ''0000'', pk_recipient := ''mallory'' \<rparr>) = True"
  by (simp add: createPackage_def signPackage_def verifyPackage_def constantSignerRuntime_def
      packagerScenarioRuntime_def scenarioPackager_def scenarioOptions_def scenarioPackage_def
      metadataJson_def letterPerByte_def filterFields_def Let_def)




section \<open>Encrypted document store: properties\<close>

lemma storeDocument_ok:
  assumes "storeDocument rt now randomIv randomSalt s category docId payload = (Inr doc, s')"
  shows "\<exists>mk docKey enc tag.
           masterKey s = Some mk \<and> pbkdf2 rt mk randomSalt = Inr docKey \<and>
           gcmEncrypt rt (authTagLength (encryption (config s))) docKey randomIv
             (case payload of Str text \<Rightarrow> utf8 rt text | Buf b \<Rightarrow> b) = Inr (enc, tag) \<and>
           config s' = config s \<and> masterKey s' = masterKey s \<and>
           documentFiles s' (getDocumentPath rt s category docId) =
             Some \<lparr> sd_id = docId, sd_category = category,
                    sd_encryptedData = encodeBase64 rt enc,
                    sd_iv = encodeBase64 rt randomIv,
                    sd_authTag = encodeBase64 rt tag,
                    sd_salt = encodeBase64 rt randomSalt,
                    sd_metadata = ed_metadata doc \<rparr>"
  using assms
  by (auto simp: storeDocument_def persistDocument_def Let_def
           split: option.splits sum.splits prod.splits)

lemma getDocumentPath_config:
  "config s2 = config s1 \<Longrightarrow> getDocumentPath rt s2 category docId = getDocumentPath rt s1 category docId"
  by (simp add: getDocumentPath_def getCategoryPath_def)

text \<open>
  Claim C1. Let decoding undo the base64 encoding of the runtime and let decryption
  under the key, IV and tag of an encryption return the encrypted text. If
  \<^verbatim>\<open>storeDocument\<close> of the byte payload \<open>P\<close> under a category and an id succeeds, then
  the store was initialized, and \<^verbatim>\<open>retrieveDocument\<close> of that category and id returns
  exactly \<open>P\<close>, in the state the store left and in every later state with the same
  configuration, the same master key and the same file for the document.
\<close>

theorem store_retrieve_roundtrip:
  assumes "\<forall>b. decodeBase64 rt (encodeBase64 rt b) = b"
    and "\<forall>n key iv text enc tag.
           gcmEncrypt rt n key iv text = Inr (enc, tag) \<longrightarrow> gcmDecrypt rt n key iv tag enc = Inr text"
    and "storeDocument rt now randomIv randomSalt s category docId (Buf P) = (Inr doc, s1)"
    and "config s2 = config s1 \<and> masterKey s2 = masterKey s1 \<and>
         documentFiles s2 (getDocumentPath rt s1 category docId)
           = documentFiles s1 (getDocumentPath rt s1 category docId)"
  shows "masterKey s \<noteq> None
       \<and> retrieveDocument rt s1 category docId = Inr P
       \<and> retrieveDocument rt s2 category docId = Inr P"
proof -
  from storeDocument_ok [OF assms(3)] obtain mk docKey enc tag where
    mk: "masterKey s = Some mk" and key: "pbkdf2 rt mk randomSalt = Inr docKey"
    and enc: "gcmEncrypt rt (authTagLength (encryption (config s))) docKey randomIv P = Inr (enc, tag)"
    and cfg: "config s1 = config s" and mk1: "masterKey s1 = masterKey s"
    and stored: "documentFiles s1 (getDocumentPath rt s category docId) =
             Some \<lparr> sd_id = docId, sd_category = category,
                    sd_encryptedData = encodeBase64 rt enc,
                    sd_iv = encodeBase64 rt randomIv,
                    sd_authTag = encodeBase64 rt tag,
                    sd_salt = encodeBase64 rt randomSalt,
                    sd_metadata = ed_metadata doc \<rparr>"
    by auto
  from assms(2) enc
  have dec: "gcmDecrypt rt (authTagLength (encryption (config s))) docKey randomIv tag enc = Inr P"
    by simp
  have p1: "getDocumentPath rt s1 category docId = getDocumentPath rt s category docId"
    using cfg by (rule getDocumentPath_config)
  have r: "retrieveDocument rt s' category docId = Inr P"
    if "config s' = config s" "masterKey s' = Some mk"
       "documentFiles s' (getDocumentPath rt s category docId) =
             Some \<lparr> sd_id = docId, sd_category = category,
                    sd_encryptedData = encodeBase64 rt enc,
                    sd_iv = encodeBase64 rt randomIv,
                    sd_authTag = encodeBase64 rt tag,
                    sd_salt = encodeBase64 rt randomSalt,
                    sd_metadata = ed_metadata doc \<rparr>" for s'
  proof -
    have "getDocumentPath rt s' category docId = getDocumentPath rt s category docId"
      using that(1) by (rule getDocumentPath_config)
    with that assms(1) key dec show ?thesis
      by (simp add: retrieveDocument_def loadDocument_def)
  qed
  have r1: "retrieveDocument rt s1 category docId = Inr P"
    using cfg mk1 mk stored by (intro r) simp_all
  have r2: "retrieveDocument rt s2 category docId = Inr P"
    using assms(4) cfg mk1 mk stored p1 by (intro r) simp_all
  from mk r1 r2 show ?thesis by simp
qed

lemma byte_char_roundtrip: "(word_of_nat (unat (b :: 8 word) mod 256) :: 8 word) = b"
proof -
  have "unat b < 256" using unsigned_less [of b] by simp
  then show ?thesis by simp
qed

lemma scenario_base64:
  "\<forall>b. decodeBase64 storeScenarioRuntime (encodeBase64 storeScenarioRuntime b) = b"
  by (simp add: storeScenarioRuntime_def byte_char_roundtrip comp_def)

lemma scenario_aead:
  "\<forall>n key iv text enc tag.
      gcmEncrypt storeScenarioRuntime n key iv text = Inr (enc, tag) \<longrightarrow>
      gcmDecrypt storeScenarioRuntime n key iv tag enc = Inr text"
  by (auto simp: storeScenarioRuntime_def)

lemma openVault_eq:
  "openVault = \<lparr> config = createDefaultVaultConfig ''vault'', masterKey = Some [9, 9],
                  documentFiles = Map.empty, saltFile = Some [9, 9] \<rparr>"
  by (simp add: openVault_def initialize_def freshVault_def storeScenarioRuntime_def Let_def)

lemma scenario_store_fst:
  "fst (storeDocument storeScenarioRuntime 100 [1, 2] [3] openVault ''medical'' ''vax-1'' (Buf [7, 8, 9]))
     = Inr \<lparr> ed_id = ''vax-1'', ed_category = ''medical'', ed_encryptedData = [9, 8, 7],
              ed_iv = [1, 2], ed_authTag = [9, 9, 3, 1, 2], ed_salt = [3],
              ed_metadata = \<lparr> created = 100, modified = 100, size = 3, version = 1 \<rparr> \<rparr>"
  by (simp add: storeDocument_def persistDocument_def openVault_eq storeScenarioRuntime_def
      createDefaultVaultConfig_def Let_def)

lemma scenario_store:
  "storeDocument storeScenarioRuntime 100 [1, 2] [3] openVault ''medical'' ''vax-1'' (Buf [7, 8, 9])
     = (Inr \<lparr> ed_id = ''vax-1'', ed_category = ''medical'', ed_encryptedData = [9, 8, 7],
              ed_iv = [1, 2], ed_authTag = [9, 9, 3, 1, 2], ed_salt = [3],
              ed_metadata = \<lparr> created = 100, modified = 100, size = 3, version = 1 \<rparr> \<rparr>,
        snd (storeDocument storeScenarioRuntime 100 [1, 2] [3] openVault ''medical'' ''vax-1''
               (Buf [7, 8, 9])))"
  by (simp add: scenario_store_fst [symmetric])

theorem store_retrieve_roundtrip_witness:
  "fst (storeDocument storeScenarioRuntime 100 [1, 2] [3] openVault ''medical'' ''vax-1''
          (Buf [7, 8, 9]))
     = Inr \<lparr> ed_id = ''vax-1'', ed_category = ''medical'', ed_encryptedData = [9, 8, 7],
              ed_iv = [1, 2], ed_authTag = [9, 9, 3, 1, 2], ed_salt = [3],
              ed_metadata = \<lparr> created = 100, modified = 100, size = 3, version = 1 \<rparr> \<rparr>
   \<and> retrieveDocument storeScenarioRuntime
        (snd (storeDocument storeScenarioRuntime 100 [1, 2] [3] openVault ''medical'' ''vax-1''
               (Buf [7, 8, 9]))) ''medical'' ''vax-1'' = Inr [7, 8, 9]"
proof -
  note t = store_retrieve_roundtrip [OF scenario_base64 scenario_aead scenario_store,
      of "snd (storeDocument storeScenarioRuntime 100 [1, 2] [3] openVault ''medical'' ''vax-1''
               (Buf [7, 8, 9]))"]
  from t have "retrieveDocument storeScenarioRuntime
        (snd (storeDocument storeScenarioRuntime 100 [1, 2] [3] openVault ''medical'' ''vax-1''
               (Buf [7, 8, 9]))) ''medical'' ''vax-1'' = Inr [7, 8, 9]"
    by simp
  with scenario_store_fst show ?thesis by simp
qed


end
